theory Spec2Isabelle
  imports Main "HOL-Library.Sublist"
begin

section \<open>JavaScript strings and values\<close>

text \<open>
  A JavaScript string is given as a \<open>string\<close> by the bytes of its UTF-8 encoding: a
  character of ASCII is one byte, U+00A0 is the two bytes C2 A0. The operations the tools
  use on strings (comparison, concatenation, \<^verbatim>\<open>startsWith\<close>, the split at the
  slash) are the same on the bytes.

  \<^verbatim>\<open>String.prototype.trim\<close> takes off white space and line terminators at both
  ends. These are U+0009 to U+000D, U+0020, U+00A0, U+1680, U+2000 to U+200A, U+2028,
  U+2029, U+202F, U+205F, U+3000 and U+FEFF; \<open>white_space_codes\<close> lists their
  encodings.
\<close>

definition white_space_codes :: "string list" where
  "white_space_codes =
     [[CHR 0x09], [CHR 0x0A], [CHR 0x0B], [CHR 0x0C], [CHR 0x0D], [CHR 0x20],
      [CHR 0xC2, CHR 0xA0],
      [CHR 0xE1, CHR 0x9A, CHR 0x80],
      [CHR 0xE2, CHR 0x80, CHR 0x80], [CHR 0xE2, CHR 0x80, CHR 0x81],
      [CHR 0xE2, CHR 0x80, CHR 0x82], [CHR 0xE2, CHR 0x80, CHR 0x83],
      [CHR 0xE2, CHR 0x80, CHR 0x84], [CHR 0xE2, CHR 0x80, CHR 0x85],
      [CHR 0xE2, CHR 0x80, CHR 0x86], [CHR 0xE2, CHR 0x80, CHR 0x87],
      [CHR 0xE2, CHR 0x80, CHR 0x88], [CHR 0xE2, CHR 0x80, CHR 0x89],
      [CHR 0xE2, CHR 0x80, CHR 0x8A],
      [CHR 0xE2, CHR 0x80, CHR 0xA8], [CHR 0xE2, CHR 0x80, CHR 0xA9],
      [CHR 0xE2, CHR 0x80, CHR 0xAF],
      [CHR 0xE2, CHR 0x81, CHR 0x9F],
      [CHR 0xE3, CHR 0x80, CHR 0x80],
      [CHR 0xEF, CHR 0xBB, CHR 0xBF]]"

text \<open>
  One white-space character taken off the start, or off the end, of a string; \<open>None\<close>
  when the string does not start, or end, with one.
\<close>

definition strip_white_start :: "string \<Rightarrow> string option" where
  "strip_white_start s =
     (case find (\<lambda>w. prefix w s) white_space_codes of
        None \<Rightarrow> None
      | Some w \<Rightarrow> Some (drop (length w) s))"

definition strip_white_end :: "string \<Rightarrow> string option" where
  "strip_white_end s =
     (case find (\<lambda>w. suffix w s) white_space_codes of
        None \<Rightarrow> None
      | Some w \<Rightarrow> Some (take (length s - length w) s))"

text \<open>
  \<^verbatim>\<open>trimStart\<close> and \<^verbatim>\<open>trimEnd\<close> take white space off while there is some; each step
  shortens the string, so both end.
\<close>

function trimStart :: "string \<Rightarrow> string" where
  "trimStart s = (case strip_white_start s of None \<Rightarrow> s | Some rest \<Rightarrow> trimStart rest)"
  by pat_completeness auto
termination
proof (relation "measure length")
  fix s rest
  assume "strip_white_start s = Some rest"
  then obtain w where f: "find (\<lambda>w. prefix w s) white_space_codes = Some w"
    and r: "rest = drop (length w) s"
    by (auto simp: strip_white_start_def split: option.splits)
  from f have "w \<in> set white_space_codes" and p: "prefix w s"
    by (auto simp: find_Some_iff)
  then have "w \<noteq> []" by (auto simp: white_space_codes_def)
  with p have "s \<noteq> []" by auto
  with \<open>w \<noteq> []\<close> r show "(rest, s) \<in> measure length" by simp
qed simp

function trimEnd :: "string \<Rightarrow> string" where
  "trimEnd s = (case strip_white_end s of None \<Rightarrow> s | Some rest \<Rightarrow> trimEnd rest)"
  by pat_completeness auto
termination
proof (relation "measure length")
  fix s rest
  assume "strip_white_end s = Some rest"
  then obtain w where f: "find (\<lambda>w. suffix w s) white_space_codes = Some w"
    and r: "rest = take (length s - length w) s"
    by (auto simp: strip_white_end_def split: option.splits)
  from f have "w \<in> set white_space_codes" and p: "suffix w s"
    by (auto simp: find_Some_iff)
  then have "w \<noteq> []" by (auto simp: white_space_codes_def)
  with p have "s \<noteq> []" by auto
  with \<open>w \<noteq> []\<close> r show "(rest, s) \<in> measure length" by simp
qed simp

declare trimStart.simps [simp del] trimEnd.simps [simp del]

definition trim :: "string \<Rightarrow> string" where
  "trim s = trimEnd (trimStart s)"

text \<open>\<^verbatim>\<open>Array.prototype.join\<close> on an array of strings.\<close>

fun join :: "string \<Rightarrow> string list \<Rightarrow> string" where
  "join sep [] = []"
| "join sep [x] = x"
| "join sep (x # y # ys) = x @ sep @ join sep (y # ys)"

text \<open>\<^verbatim>\<open>String.prototype.includes\<close>: the needle occurs somewhere in the string.\<close>

fun str_includes :: "string \<Rightarrow> string \<Rightarrow> bool" where
  "str_includes [] needle = (needle = [])"
| "str_includes (c # cs) needle = (prefix needle (c # cs) \<or> str_includes cs needle)"

text \<open>
  Decimal rendering of an integer inside a template literal (JavaScript writes an
  integer of fewer than 22 digits in plain decimal).
\<close>

definition digit_char :: "nat \<Rightarrow> char" where
  "digit_char d = ''0123456789'' ! d"

fun show_nat :: "nat \<Rightarrow> string" where
  "show_nat n = (if n < 10 then [digit_char n] else show_nat (n div 10) @ [digit_char (n mod 10)])"

declare show_nat.simps [simp del]

definition show_int :: "int \<Rightarrow> string" where
  "show_int i = (if i < 0 then ''-'' @ show_nat (nat (- i)) else show_nat (nat i))"

text \<open>
  A field of a remote descriptor that may be absent is an \<open>option\<close>
  (\<open>None\<close> is \<^verbatim>\<open>undefined\<close>). \<open>truthy\<close> is JavaScript's truthiness of
  such a string, \<open>js_or\<close> is \<^verbatim>\<open>a || b\<close>, \<open>or_else\<close> is \<^verbatim>\<open>a || 'literal'\<close>,
  and \<open>template\<close> is the text \<^verbatim>\<open>${a}\<close> puts into a template literal.
\<close>

definition truthy :: "string option \<Rightarrow> bool" where
  "truthy a = (case a of None \<Rightarrow> False | Some s \<Rightarrow> s \<noteq> [])"

definition js_or :: "string option \<Rightarrow> string option \<Rightarrow> string option" where
  "js_or a b = (if truthy a then a else b)"

definition or_else :: "string option \<Rightarrow> string \<Rightarrow> string" where
  "or_else a d = (case a of None \<Rightarrow> d | Some s \<Rightarrow> if s \<noteq> [] then s else d)"

definition template :: "string option \<Rightarrow> string" where
  "template a = (case a of None \<Rightarrow> ''undefined'' | Some s \<Rightarrow> s)"

text \<open>
  The descriptor of a remote file declares \<^verbatim>\<open>sizeBytes\<close> as a string, the decimal
  digits of the size; the mocks of the repository's tests put a number there
  (\<^verbatim>\<open>sizeBytes: 12\<close>). A value of either kind is given, with JavaScript's truthiness
  and template rendering of each.
\<close>

datatype js_value = JSNumber int | JSString string

fun truthy_value :: "js_value option \<Rightarrow> bool" where
  "truthy_value None = False"
| "truthy_value (Some (JSNumber n)) = (n \<noteq> 0)"
| "truthy_value (Some (JSString s)) = (s \<noteq> [])"

fun template_value :: "js_value \<Rightarrow> string" where
  "template_value (JSNumber n) = show_int n"
| "template_value (JSString s) = s"

section \<open>node:path on POSIX\<close>

text \<open>
  The tools call \<^verbatim>\<open>path.isAbsolute\<close>, \<^verbatim>\<open>path.resolve\<close>, \<^verbatim>\<open>path.sep\<close> and
  \<^verbatim>\<open>path.basename\<close> of Node's library. They are given here for POSIX: a path is
  absolute when it starts with a slash; \<open>path_resolve\<close> with one argument puts
  a relative path under the working directory, drops empty and \<^verbatim>\<open>.\<close> segments, lets
  \<^verbatim>\<open>..\<close> remove the segment before it, and joins what is left behind a leading slash.
\<close>

definition path_sep :: string where
  "path_sep = ''/''"

definition path_isAbsolute :: "string \<Rightarrow> bool" where
  "path_isAbsolute p = (case p of [] \<Rightarrow> False | c # _ \<Rightarrow> c = CHR ''/'')"

fun split_sep :: "string \<Rightarrow> string list" where
  "split_sep [] = [[]]"
| "split_sep (c # cs) =
     (if c = CHR ''/'' then [] # split_sep cs
      else (case split_sep cs of [] \<Rightarrow> [[c]] | seg # segs \<Rightarrow> (c # seg) # segs))"

definition normalize_step :: "string list \<Rightarrow> string \<Rightarrow> string list" where
  "normalize_step acc seg =
     (if seg = [] \<or> seg = ''.'' then acc
      else if seg = ''..'' then butlast acc
      else acc @ [seg])"

definition normalize_segments :: "string list \<Rightarrow> string list" where
  "normalize_segments segs = foldl normalize_step [] segs"

definition resolved_segments :: "string \<Rightarrow> string \<Rightarrow> string list" where
  "resolved_segments wd p =
     (let full = (if path_isAbsolute p then p else if p = [] then wd else wd @ ''/'' @ p)
      in normalize_segments (split_sep full))"

definition path_resolve :: "string \<Rightarrow> string \<Rightarrow> string" where
  "path_resolve wd p = ''/'' @ join ''/'' (resolved_segments wd p)"

definition path_basename :: "string \<Rightarrow> string" where
  "path_basename p =
     (case filter (\<lambda>seg. seg \<noteq> []) (split_sep p) of [] \<Rightarrow> [] | seg # segs \<Rightarrow> last (seg # segs))"

text \<open>
  Two notions for reasoning about resolved paths: a segment as \<open>path_resolve\<close> keeps
  it (not empty, no slash), and a list of segments written with a slash before each.
\<close>

definition clean_segment :: "string \<Rightarrow> bool" where
  "clean_segment seg = (seg \<noteq> [] \<and> CHR ''/'' \<notin> set seg)"

fun slashed :: "string list \<Rightarrow> string" where
  "slashed [] = []"
| "slashed (seg # segs) = CHR ''/'' # seg @ slashed segs"

section \<open>Configuration, file system and results\<close>

text \<open>
  The configuration object, the workspace context, the file discovery service and
  \<^verbatim>\<open>node:fs\<close> are collaborators outside the tools: each is a record of the answers
  it gives. \<open>lstatSync\<close> answers \<open>None\<close> where the call throws.
  Of the \<open>AuthType\<close> enumeration the tools name \<open>USE_GEMINI\<close> and
  \<open>LOGIN_WITH_GOOGLE\<close>, their tests \<open>USE_VERTEX_AI\<close>; \<open>CLOUD_SHELL\<close> stands for
  every other member.
\<close>

datatype AuthType = LOGIN_WITH_GOOGLE | USE_GEMINI | USE_VERTEX_AI | CLOUD_SHELL

record ContentGeneratorConfig =
  apiKey :: "string option"
  vertexai :: bool
  authType :: "AuthType option"

record Config =
  getContentGeneratorConfig :: ContentGeneratorConfig
  getDirectories :: "string list"
  isPathWithinWorkspace :: "string \<Rightarrow> bool"
  getProjectTempDir :: string
  shouldGeminiIgnoreFile :: "string \<Rightarrow> bool"

record Stats =
  isFile :: bool

record FileSystem =
  cwd :: string
  existsSync :: "string \<Rightarrow> bool"
  lstatSync :: "string \<Rightarrow> Stats option"

datatype ToolErrorType =
  UPLOAD_NOT_SUPPORTED | FILE_UPLOAD_FAILURE | DOWNLOAD_NOT_SUPPORTED
  | FILE_DOWNLOAD_FAILURE | FILE_LIST_FAILURE

record ToolError =
  message :: string
  errorType :: ToolErrorType

record ToolResult =
  llmContent :: string
  returnDisplay :: string
  error :: "ToolError option"

text \<open>
  Validation asks its collaborators in the order of the source. Each question is
  logged, so that what a validation run did not ask can be stated.
\<close>

datatype query =
  AskWorkspace string | AskIgnore string | AskExists string | AskLstat string | AskAuth

definition logged :: "'q list \<Rightarrow> 'q list \<times> 'a \<Rightarrow> 'q list \<times> 'a" where
  "logged qs r = (qs @ fst r, snd r)"

section \<open>UploadFileTool: validation and build\<close>

record UploadFileToolParams =
  absolute_path :: string
  display_name :: "string option"

text \<open>Lines 166 to 170 of upload-file.ts: the temp-directory test of the containment rule.\<close>

definition isWithinTempDir :: "string \<Rightarrow> string \<Rightarrow> string \<Rightarrow> bool" where
  "isWithinTempDir wd projectTempDir filePath =
     (let resolvedFilePath = path_resolve wd filePath;
          resolvedProjectTempDir = path_resolve wd projectTempDir
      in prefix (resolvedProjectTempDir @ path_sep) resolvedFilePath
         \<or> resolvedFilePath = resolvedProjectTempDir)"

text \<open>Lines 195 to 206 of upload-file.ts: the authentication checks, which end validation.\<close>

definition upload_auth_check :: "Config \<Rightarrow> query list \<times> string option" where
  "upload_auth_check config =
     (let contentGeneratorConfig = getContentGeneratorConfig config in
      if vertexai contentGeneratorConfig then
        ([], Some ''File upload is not supported when using Vertex AI. Please use Gemini API (GEMINI_API_KEY) or OAuth authentication.'')
      else if authType contentGeneratorConfig \<noteq> Some USE_GEMINI
              \<and> authType contentGeneratorConfig \<noteq> Some LOGIN_WITH_GOOGLE then
        ([], Some ''File upload requires either Gemini API key (GEMINI_API_KEY) or OAuth authentication.'')
      else ([], None))"

text \<open>
  \<open>UploadFileTool.validateToolParamValues\<close> (upload-file.ts, lines 151 to 209): the
  message of the first check that fails, or \<open>None\<close>, with the questions asked.
\<close>

definition UploadFileTool_validateToolParamValues ::
  "Config \<Rightarrow> FileSystem \<Rightarrow> UploadFileToolParams \<Rightarrow> query list \<times> string option" where
  "UploadFileTool_validateToolParamValues config fs params =
     (let filePath = absolute_path params in
      if trim (absolute_path params) = [] then
        ([], Some ''The 'absolute_path' parameter must be non-empty.'')
      else if \<not> path_isAbsolute filePath then
        ([], Some (''File path must be absolute, but was relative: '' @ filePath
                   @ ''. You must provide an absolute path.''))
      else
        logged [AskWorkspace filePath]
         (if \<not> isPathWithinWorkspace config filePath
             \<and> \<not> isWithinTempDir (cwd fs) (getProjectTempDir config) filePath then
            ([], Some (''File path must be within one of the workspace directories: ''
                       @ join '', '' (getDirectories config)
                       @ '' or within the project temp directory: '' @ getProjectTempDir config))
          else
            logged [AskIgnore (absolute_path params)]
             (if shouldGeminiIgnoreFile config (absolute_path params) then
                ([], Some (''File path '' @ [CHR 0x27] @ filePath @ [CHR 0x27]
                           @ '' is ignored by .geminiignore pattern(s).''))
              else
                logged [AskExists (absolute_path params)]
                 (if \<not> existsSync fs (absolute_path params) then
                    ([], Some (''File does not exist: '' @ filePath))
                  else
                    logged [AskLstat (absolute_path params)]
                     (case lstatSync fs (absolute_path params) of
                        None \<Rightarrow>
                          ([], Some (''File does not exist or cannot be accessed: '' @ filePath))
                      | Some stats \<Rightarrow>
                          if \<not> isFile stats then ([], Some (''Path is not a file: '' @ filePath))
                          else logged [AskAuth] (upload_auth_check config))))))"

text \<open>The invocation holds the configuration and the validated parameters.\<close>

record UploadFileToolInvocation =
  upload_config :: Config
  upload_params :: UploadFileToolParams

text \<open>
  Modelled from the spec: \<open>build\<close> of the base class (tools.ts is not among the
  sources). Section 4.2: build returns an invocation or raises the validation fault;
  the tests read the fault's message.
\<close>

definition UploadFileTool_build ::
  "Config \<Rightarrow> FileSystem \<Rightarrow> UploadFileToolParams \<Rightarrow> query list \<times> (string + UploadFileToolInvocation)" where
  "UploadFileTool_build config fs params =
     (case UploadFileTool_validateToolParamValues config fs params of
        (qs, Some msg) \<Rightarrow> (qs, Inl msg)
      | (qs, None) \<Rightarrow> (qs, Inr \<lparr>upload_config = config, upload_params = params\<rparr>))"

section \<open>The remote file manager\<close>

text \<open>
  A value thrown by the remote client is an \<^verbatim>\<open>Error\<close> object with its message, or
  any other value with the text \<^verbatim>\<open>String\<close> gives for it.
\<close>

datatype thrown = ErrorObject string | OtherValue string

text \<open>
  Modelled from the spec: \<open>getErrorMessage\<close> (utils/errors.ts is not among the
  sources). Section 7: a remote failure is wrapped with the original message.
\<close>

fun getErrorMessage :: "thrown \<Rightarrow> string" where
  "getErrorMessage (ErrorObject msg) = msg"
| "getErrorMessage (OtherValue shown) = shown"

record GeminiFile =
  name :: "string option"
  uri :: "string option"
  displayName :: "string option"
  mimeType :: "string option"
  sizeBytes :: "js_value option"
  state :: "string option"
  createTime :: "string option"

datatype AbortSignal = AbortSignal bool

record GoogleGenAIOptions =
  options_apiKey :: "string option"
  options_vertexai :: bool

text \<open>
  The remote client as the tools use it: the constructor (which may throw), and the
  three calls of its files interface. A listing is a one-shot sequence: the
  descriptors it yields, and the value it throws after them if it fails midway.
\<close>

record Remote =
  newGoogleGenAI :: "GoogleGenAIOptions \<Rightarrow> thrown option"
  files_upload :: "string \<Rightarrow> string option \<Rightarrow> AbortSignal \<Rightarrow> thrown + GeminiFile"
  files_list :: "int option \<Rightarrow> AbortSignal \<Rightarrow> thrown + (GeminiFile list \<times> thrown option)"
  files_download :: "string \<Rightarrow> string \<Rightarrow> AbortSignal \<Rightarrow> thrown option"

datatype remote_call =
  NewGoogleGenAI GoogleGenAIOptions
  | FilesUpload string "string option" AbortSignal
  | FilesList "int option" AbortSignal
  | FilesDownload string string AbortSignal

text \<open>
  A block of code gives the remote calls it made and either the value it threw
  (\<open>Inl\<close>) or its result (\<open>Inr\<close>). \<open>try_catch\<close> is \<^verbatim>\<open>try { body } catch (err) { handler }\<close>.
\<close>

definition try_catch ::
  "'c list \<times> (thrown + 'a) \<Rightarrow> (thrown \<Rightarrow> thrown + 'a) \<Rightarrow> 'c list \<times> (thrown + 'a)" where
  "try_catch body handler =
     (case snd body of Inl err \<Rightarrow> (fst body, handler err) | Inr r \<Rightarrow> (fst body, Inr r))"

definition client_options :: "ContentGeneratorConfig \<Rightarrow> GoogleGenAIOptions" where
  "client_options contentGeneratorConfig =
     \<lparr>options_apiKey =
        (if apiKey contentGeneratorConfig = Some [] then None else apiKey contentGeneratorConfig),
      options_vertexai = vertexai contentGeneratorConfig\<rparr>"

definition newline :: string where
  "newline = [CHR 0x0A]"

text \<open>The expression \<^verbatim>\<open>f.sizeBytes ? `${f.sizeBytes} bytes` : 'unknown'\<close> of both tools.\<close>

definition size_text :: "js_value option \<Rightarrow> string" where
  "size_text sb =
     (if truthy_value sb
      then (case sb of None \<Rightarrow> ''undefined bytes'' | Some v \<Rightarrow> template_value v @ '' bytes'')
      else ''unknown'')"

section \<open>UploadFileToolInvocation.execute\<close>

text \<open>The body of the try block (upload-file.ts, lines 70 to 100).\<close>

definition UploadFileToolInvocation_try ::
  "ContentGeneratorConfig \<Rightarrow> Remote \<Rightarrow> UploadFileToolParams \<Rightarrow> AbortSignal
     \<Rightarrow> remote_call list \<times> (thrown + ToolResult)" where
  "UploadFileToolInvocation_try contentGeneratorConfig remote params signal =
     logged [NewGoogleGenAI (client_options contentGeneratorConfig)]
      (case newGoogleGenAI remote (client_options contentGeneratorConfig) of
         Some err \<Rightarrow> ([], Inl err)
       | None \<Rightarrow>
           logged [FilesUpload (absolute_path params) (display_name params) signal]
            (case files_upload remote (absolute_path params) (display_name params) signal of
               Inl err \<Rightarrow> ([], Inl err)
             | Inr uploadedFile \<Rightarrow>
                 (let fileName = path_basename (absolute_path params);
                      displayName' = or_else (displayName uploadedFile) fileName;
                      fileUri = js_or (uri uploadedFile) (name uploadedFile);
                      successMessage =
                        ''Successfully uploaded file: '' @ displayName' @ newline
                        @ ''File URI: '' @ template fileUri @ newline
                        @ ''MIME Type: '' @ template (mimeType uploadedFile) @ newline
                        @ ''Size: '' @ size_text (sizeBytes uploadedFile) @ newline
                        @ ''State: '' @ template (state uploadedFile) @ newline
                        @ newline
                        @ ''You can now reference this file in your prompts using the file URI.''
                  in ([], Inr \<lparr>llmContent = successMessage, returnDisplay = successMessage,
                                error = None\<rparr>))))"

text \<open>\<open>UploadFileToolInvocation.execute\<close> (upload-file.ts, lines 53 to 114).\<close>

definition UploadFileToolInvocation_execute ::
  "UploadFileToolInvocation \<Rightarrow> Remote \<Rightarrow> AbortSignal \<Rightarrow> remote_call list \<times> (thrown + ToolResult)" where
  "UploadFileToolInvocation_execute this remote signal =
     (let contentGeneratorConfig = getContentGeneratorConfig (upload_config this) in
      if vertexai contentGeneratorConfig then
        (let errorMsg = ''File upload is not supported when using Vertex AI. Please use Gemini API (GEMINI_API_KEY) or OAuth authentication.''
         in ([], Inr \<lparr>llmContent = errorMsg, returnDisplay = errorMsg,
                       error = Some \<lparr>message = errorMsg, errorType = UPLOAD_NOT_SUPPORTED\<rparr>\<rparr>))
      else
        try_catch (UploadFileToolInvocation_try contentGeneratorConfig remote (upload_params this) signal)
          (\<lambda>err.
             let errorMessage = getErrorMessage err;
                 errorMsg = ''Error uploading file '' @ [CHR 0x27] @ absolute_path (upload_params this)
                            @ [CHR 0x27] @ '': '' @ errorMessage
             in Inr \<lparr>llmContent = errorMsg, returnDisplay = errorMsg,
                     error = Some \<lparr>message = errorMsg, errorType = FILE_UPLOAD_FAILURE\<rparr>\<rparr>))"

section \<open>ListFilesTool\<close>

record ListFilesToolParams =
  page_size :: "int option"

text \<open>Lines 166 to 177 of list-files.ts: the authentication checks.\<close>

definition list_auth_check :: "Config \<Rightarrow> query list \<times> string option" where
  "list_auth_check config =
     (let contentGeneratorConfig = getContentGeneratorConfig config in
      if vertexai contentGeneratorConfig then
        ([], Some ''File listing is not supported when using Vertex AI. Please use Gemini API (GEMINI_API_KEY) or OAuth authentication.'')
      else if authType contentGeneratorConfig \<noteq> Some USE_GEMINI
              \<and> authType contentGeneratorConfig \<noteq> Some LOGIN_WITH_GOOGLE then
        ([], Some ''File listing requires either Gemini API key (GEMINI_API_KEY) or OAuth authentication.'')
      else ([], None))"

text \<open>
  \<open>ListFilesTool.validateToolParamValues\<close> (list-files.ts, lines 159 to 180). The page
  size is an integer here; an absent \<^verbatim>\<open>page_size\<close> is \<open>None\<close>.
\<close>

definition ListFilesTool_validateToolParamValues ::
  "Config \<Rightarrow> ListFilesToolParams \<Rightarrow> query list \<times> string option" where
  "ListFilesTool_validateToolParamValues config params =
     (if (case page_size params of None \<Rightarrow> False | Some n \<Rightarrow> n \<le> 0) then
        ([], Some ''page_size must be a positive number'')
      else logged [AskAuth] (list_auth_check config))"

record ListFilesToolInvocation =
  list_config :: Config
  list_params :: ListFilesToolParams

text \<open>Modelled from the spec: \<open>build\<close> of the base class, as for the upload tool.\<close>

definition ListFilesTool_build ::
  "Config \<Rightarrow> ListFilesToolParams \<Rightarrow> query list \<times> (string + ListFilesToolInvocation)" where
  "ListFilesTool_build config params =
     (case ListFilesTool_validateToolParamValues config params of
        (qs, Some msg) \<Rightarrow> (qs, Inl msg)
      | (qs, None) \<Rightarrow> (qs, Inr \<lparr>list_config = config, list_params = params\<rparr>))"

text \<open>
  The loop \<^verbatim>\<open>for await (const file of listResponse) files.push(file)\<close>: the third
  argument is \<^verbatim>\<open>files\<close> so far.
\<close>

fun for_await_push :: "GeminiFile list \<Rightarrow> thrown option \<Rightarrow> GeminiFile list \<Rightarrow> thrown + GeminiFile list" where
  "for_await_push [] None files = Inr files"
| "for_await_push [] (Some err) files = Inl err"
| "for_await_push (file # rest) fin files = for_await_push rest fin (files @ [file])"

text \<open>The callback of \<^verbatim>\<open>files.map((file, index) => ...)\<close> (list-files.ts, lines 87 to 101).\<close>

definition format_file :: "nat \<times> GeminiFile \<Rightarrow> string" where
  "format_file entry =
     (case entry of (index, file) \<Rightarrow>
        (let displayName' = or_else (displayName file) ''N/A'';
             uri' = or_else (js_or (uri file) (name file)) ''N/A'';
             mimeType' = or_else (mimeType file) ''unknown'';
             size = size_text (sizeBytes file);
             state' = or_else (state file) ''unknown'';
             createTime' = or_else (createTime file) ''unknown''
         in show_nat (index + 1) @ ''. '' @ displayName' @ newline
            @ ''   URI: '' @ uri' @ newline
            @ ''   MIME Type: '' @ mimeType' @ newline
            @ ''   Size: '' @ size @ newline
            @ ''   State: '' @ state' @ newline
            @ ''   Created: '' @ createTime'))"

text \<open>The body of the try block (list-files.ts, lines 58 to 113).\<close>

definition ListFilesToolInvocation_try ::
  "ContentGeneratorConfig \<Rightarrow> Remote \<Rightarrow> ListFilesToolParams \<Rightarrow> AbortSignal
     \<Rightarrow> remote_call list \<times> (thrown + ToolResult)" where
  "ListFilesToolInvocation_try contentGeneratorConfig remote params signal =
     logged [NewGoogleGenAI (client_options contentGeneratorConfig)]
      (case newGoogleGenAI remote (client_options contentGeneratorConfig) of
         Some err \<Rightarrow> ([], Inl err)
       | None \<Rightarrow>
           logged [FilesList (page_size params) signal]
            (case files_list remote (page_size params) signal of
               Inl err \<Rightarrow> ([], Inl err)
             | Inr (yielded, fin) \<Rightarrow>
                 (case for_await_push yielded fin [] of
                    Inl err \<Rightarrow> ([], Inl err)
                  | Inr files \<Rightarrow>
                      if length files = 0 then
                        (let message' = ''No files found in the Gemini API file manager.''
                         in ([], Inr \<lparr>llmContent = message', returnDisplay = message',
                                       error = None\<rparr>))
                      else
                        (let filesList = join (newline @ newline)
                                           (map format_file (enumerate 0 files));
                             successMessage =
                               ''Found '' @ show_nat (length files)
                               @ '' file(s) in Gemini API file manager:'' @ newline
                               @ newline
                               @ filesList @ newline
                               @ newline
                               @ ''You can reference these files in your prompts using their URI, or download them using the download_file tool.''
                         in ([], Inr \<lparr>llmContent = successMessage,
                                       returnDisplay = successMessage, error = None\<rparr>)))))"

text \<open>\<open>ListFilesToolInvocation.execute\<close> (list-files.ts, lines 41 to 127).\<close>

definition ListFilesToolInvocation_execute ::
  "ListFilesToolInvocation \<Rightarrow> Remote \<Rightarrow> AbortSignal \<Rightarrow> remote_call list \<times> (thrown + ToolResult)" where
  "ListFilesToolInvocation_execute this remote signal =
     (let contentGeneratorConfig = getContentGeneratorConfig (list_config this) in
      if vertexai contentGeneratorConfig then
        (let errorMsg = ''File listing is not supported when using Vertex AI. Please use Gemini API (GEMINI_API_KEY) or OAuth authentication.''
         in ([], Inr \<lparr>llmContent = errorMsg, returnDisplay = errorMsg,
                       error = Some \<lparr>message = errorMsg, errorType = DOWNLOAD_NOT_SUPPORTED\<rparr>\<rparr>))
      else
        try_catch (ListFilesToolInvocation_try contentGeneratorConfig remote (list_params this) signal)
          (\<lambda>err.
             let errorMessage = getErrorMessage err;
                 errorMsg = ''Error listing files from Gemini API: '' @ errorMessage
             in Inr \<lparr>llmContent = errorMsg, returnDisplay = errorMsg,
                     error = Some \<lparr>message = errorMsg, errorType = FILE_LIST_FAILURE\<rparr>\<rparr>))"

section \<open>DownloadFileTool\<close>

text \<open>
  Modelled from the spec: the parameters of the download tool and the classes of its
  rejections (download-file.ts is not among the sources; only its tests are). The
  sources do not hold the texts of all the messages, so a rejection is given by its
  class, as Section 4.1 names them.
\<close>

record DownloadFileToolParams =
  file_uri :: string
  download_path :: string

datatype DownloadRejection =
  EmptyFileUri | EmptyDownloadPath | CapabilityUnavailable | NotAbsolute string
  | OutsideRoots "string list" string | ParentMissing string

text \<open>
  Modelled from the spec: the parent directory of the target (Section 4.1, rule 6), taken
  of the resolved path.
\<close>

definition parent_directory :: "string \<Rightarrow> string \<Rightarrow> string" where
  "parent_directory wd p = ''/'' @ join ''/'' (butlast (resolved_segments wd p))"

text \<open>
  Modelled from the spec: validation of the download tool (download-file.ts is not among
  the sources). Sections 4.1 and 4.2: the file identifier and the path are non-empty; the
  authorization-mode check comes before any path check; then the path is absolute, lies
  in a workspace root or in the temp directory, and its parent directory exists. There
  is no ignore-pattern rule and no existence rule for the target itself.
\<close>

definition DownloadFileTool_validateToolParamValues ::
  "Config \<Rightarrow> FileSystem \<Rightarrow> DownloadFileToolParams \<Rightarrow> DownloadRejection option" where
  "DownloadFileTool_validateToolParamValues config fs params =
     (if file_uri params = [] then Some EmptyFileUri
      else if download_path params = [] then Some EmptyDownloadPath
      else if vertexai (getContentGeneratorConfig config) then Some CapabilityUnavailable
      else if \<not> path_isAbsolute (download_path params) then
        Some (NotAbsolute (download_path params))
      else if \<not> (isPathWithinWorkspace config (download_path params)
                  \<or> isWithinTempDir (cwd fs) (getProjectTempDir config) (download_path params)) then
        Some (OutsideRoots (getDirectories config) (getProjectTempDir config))
      else if \<not> existsSync fs (parent_directory (cwd fs) (download_path params)) then
        Some (ParentMissing (parent_directory (cwd fs) (download_path params)))
      else None)"

text \<open>
  Modelled from the spec: the guarded part of execute of the download invocation
  (download-file.ts is not among the sources). Section 4.3: it calls the adapter's
  download operation with the identifier and the target path; on success the
  confirmation holds both. The tests give \<^verbatim>\<open>Successfully downloaded file\<close>; the
  rest of the sentence is not in the sources.
\<close>

definition DownloadFileToolInvocation_try ::
  "ContentGeneratorConfig \<Rightarrow> Remote \<Rightarrow> DownloadFileToolParams \<Rightarrow> AbortSignal
     \<Rightarrow> remote_call list \<times> (thrown + ToolResult)" where
  "DownloadFileToolInvocation_try contentGeneratorConfig remote params signal =
     logged [NewGoogleGenAI (client_options contentGeneratorConfig)]
      (case newGoogleGenAI remote (client_options contentGeneratorConfig) of
         Some err \<Rightarrow> ([], Inl err)
       | None \<Rightarrow>
           logged [FilesDownload (file_uri params) (download_path params) signal]
            (case files_download remote (file_uri params) (download_path params) signal of
               Some err \<Rightarrow> ([], Inl err)
             | None \<Rightarrow>
                 (let successMessage = ''Successfully downloaded file: '' @ file_uri params
                                       @ '' to '' @ download_path params
                  in ([], Inr \<lparr>llmContent = successMessage, returnDisplay = successMessage,
                                error = None\<rparr>))))"

text \<open>
  Modelled from the spec: execute of the download invocation. Sections 4.3 and 7: a
  failure of the call is caught and becomes a result of the remote-operation-failed
  kind, wrapped with the original message. The tests give \<^verbatim>\<open>Error downloading file\<close>
  and \<open>FILE_DOWNLOAD_FAILURE\<close>; the rest of the sentence is not in the sources.
\<close>

definition DownloadFileToolInvocation_execute ::
  "Config \<Rightarrow> DownloadFileToolParams \<Rightarrow> Remote \<Rightarrow> AbortSignal
     \<Rightarrow> remote_call list \<times> (thrown + ToolResult)" where
  "DownloadFileToolInvocation_execute config params remote signal =
     try_catch (DownloadFileToolInvocation_try (getContentGeneratorConfig config) remote params signal)
       (\<lambda>err.
          let errorMsg = ''Error downloading file '' @ file_uri params @ '': '' @ getErrorMessage err
          in Inr \<lparr>llmContent = errorMsg, returnDisplay = errorMsg,
                  error = Some \<lparr>message = errorMsg, errorType = FILE_DOWNLOAD_FAILURE\<rparr>\<rparr>)"

section \<open>The path rules as an ordered table\<close>

text \<open>
  The rules of Section 4.1 as the specification words them: a list of rules, each with
  the question it asks, whether it rejects, and its message; the verdict is that of the
  first rule that rejects, and the rules after it are not run.
\<close>

type_synonym rule = "query list \<times> bool \<times> string"

fun first_rejection :: "rule list \<Rightarrow> query list \<times> string option" where
  "first_rejection [] = ([], None)"
| "first_rejection ((asks, rejects, msg) # rules) =
     logged asks (if rejects then ([], Some msg) else first_rejection rules)"

definition upload_path_rules :: "Config \<Rightarrow> FileSystem \<Rightarrow> string \<Rightarrow> rule list" where
  "upload_path_rules config fs p =
     [([], trim p = [],
         ''The 'absolute_path' parameter must be non-empty.''),
      ([], \<not> path_isAbsolute p,
         ''File path must be absolute, but was relative: '' @ p
         @ ''. You must provide an absolute path.''),
      ([AskWorkspace p],
         \<not> isPathWithinWorkspace config p \<and> \<not> isWithinTempDir (cwd fs) (getProjectTempDir config) p,
         ''File path must be within one of the workspace directories: ''
         @ join '', '' (getDirectories config)
         @ '' or within the project temp directory: '' @ getProjectTempDir config),
      ([AskIgnore p], shouldGeminiIgnoreFile config p,
         ''File path '' @ [CHR 0x27] @ p @ [CHR 0x27] @ '' is ignored by .geminiignore pattern(s).''),
      ([AskExists p], \<not> existsSync fs p,
         ''File does not exist: '' @ p),
      ([AskLstat p], (case lstatSync fs p of None \<Rightarrow> False | Some stats \<Rightarrow> \<not> isFile stats),
         ''Path is not a file: '' @ p)]"

text \<open>A path that passes every path rule of the upload tool's validation.\<close>

definition upload_path_admitted :: "Config \<Rightarrow> FileSystem \<Rightarrow> string \<Rightarrow> bool" where
  "upload_path_admitted config fs p =
     (trim p \<noteq> [] \<and> path_isAbsolute p
      \<and> (isPathWithinWorkspace config p \<or> isWithinTempDir (cwd fs) (getProjectTempDir config) p)
      \<and> \<not> shouldGeminiIgnoreFile config p
      \<and> existsSync fs p
      \<and> (case lstatSync fs p of None \<Rightarrow> False | Some stats \<Rightarrow> isFile stats))"

section \<open>Failures of the remote calls\<close>

text \<open>
  What it means that the remote side of an execute fails with a thrown value: the
  constructor of the client throws it, or the call does, or (for a listing) the sequence
  throws it after the descriptors it yielded.
\<close>

definition upload_remote_fails ::
  "Remote \<Rightarrow> ContentGeneratorConfig \<Rightarrow> UploadFileToolParams \<Rightarrow> AbortSignal \<Rightarrow> thrown \<Rightarrow> bool" where
  "upload_remote_fails remote contentGeneratorConfig params signal err =
     (case newGoogleGenAI remote (client_options contentGeneratorConfig) of
        Some thrown_value \<Rightarrow> thrown_value = err
      | None \<Rightarrow>
          (case files_upload remote (absolute_path params) (display_name params) signal of
             Inl thrown_value \<Rightarrow> thrown_value = err
           | Inr uploadedFile \<Rightarrow> False))"

definition list_remote_fails ::
  "Remote \<Rightarrow> ContentGeneratorConfig \<Rightarrow> ListFilesToolParams \<Rightarrow> AbortSignal \<Rightarrow> thrown \<Rightarrow> bool" where
  "list_remote_fails remote contentGeneratorConfig params signal err =
     (case newGoogleGenAI remote (client_options contentGeneratorConfig) of
        Some thrown_value \<Rightarrow> thrown_value = err
      | None \<Rightarrow>
          (case files_list remote (page_size params) signal of
             Inl thrown_value \<Rightarrow> thrown_value = err
           | Inr (yielded, fin) \<Rightarrow> fin = Some err))"

text \<open>Modelled from the spec: the same for the download invocation.\<close>

definition download_remote_fails ::
  "Remote \<Rightarrow> ContentGeneratorConfig \<Rightarrow> DownloadFileToolParams \<Rightarrow> AbortSignal \<Rightarrow> thrown \<Rightarrow> bool" where
  "download_remote_fails remote contentGeneratorConfig params signal err =
     (case newGoogleGenAI remote (client_options contentGeneratorConfig) of
        Some thrown_value \<Rightarrow> thrown_value = err
      | None \<Rightarrow> files_download remote (file_uri params) (download_path params) signal = Some err)"

section \<open>Configurations of the tests\<close>

text \<open>
  The mock configuration of the test files: one workspace root, the temp directory
  \<^verbatim>\<open>.temp\<close> under it, the API key \<^verbatim>\<open>test-api-key\<close>; the authentication is a
  parameter. \<open>outside_temp_config\<close> differs in its temp directory, which lies outside
  the workspace root. The file system holds one regular file in the workspace, one
  under each temp directory, and the directories above them.
\<close>

definition mock_config :: "bool \<Rightarrow> AuthType \<Rightarrow> Config" where
  "mock_config vertex auth =
     \<lparr>getContentGeneratorConfig =
        \<lparr>apiKey = Some ''test-api-key'', vertexai = vertex, authType = Some auth\<rparr>,
      getDirectories = [''/tmp/root''],
      isPathWithinWorkspace = (\<lambda>p. p = ''/tmp/root'' \<or> prefix ''/tmp/root/'' p),
      getProjectTempDir = ''/tmp/root/.temp'',
      shouldGeminiIgnoreFile = (\<lambda>p. False)\<rparr>"

definition outside_temp_config :: Config where
  "outside_temp_config = (mock_config False USE_GEMINI)\<lparr>getProjectTempDir := ''/var/gemini/tmp''\<rparr>"

definition mock_fs :: FileSystem where
  "mock_fs =
     \<lparr>cwd = ''/tmp/root'',
      existsSync = (\<lambda>p. p \<in> set [''/tmp/root'', ''/tmp/root/test.txt'', ''/tmp/root/testdir'',
                                  ''/tmp/root/.temp'', ''/tmp/root/.temp/temp-file.txt'',
                                  ''/var/gemini/tmp'', ''/var/gemini/tmp/temp-file.txt'']),
      lstatSync = (\<lambda>p. if p \<in> set [''/tmp/root/test.txt'', ''/tmp/root/.temp/temp-file.txt'',
                                     ''/var/gemini/tmp/temp-file.txt'']
                        then Some \<lparr>isFile = True\<rparr>
                        else if p \<in> set [''/tmp/root'', ''/tmp/root/testdir'', ''/tmp/root/.temp'',
                                          ''/var/gemini/tmp'']
                        then Some \<lparr>isFile = False\<rparr> else None)\<rparr>"

definition mock_remote ::
  "(thrown + GeminiFile) \<Rightarrow> (thrown + GeminiFile list \<times> thrown option) \<Rightarrow> thrown option \<Rightarrow> Remote" where
  "mock_remote uploaded listed downloaded =
     \<lparr>newGoogleGenAI = (\<lambda>options. None),
      files_upload = (\<lambda>file displayName' signal. uploaded),
      files_list = (\<lambda>pageSize signal. listed),
      files_download = (\<lambda>file downloadPath signal. downloaded)\<rparr>"

definition mock_file :: "string \<Rightarrow> string \<Rightarrow> string \<Rightarrow> js_value \<Rightarrow> string \<Rightarrow> GeminiFile" where
  "mock_file ident displayName' mimeType' size' createTime' =
     \<lparr>name = Some (''files/'' @ ident),
      uri = Some (''https://generativelanguage.googleapis.com/v1beta/files/'' @ ident),
      displayName = Some displayName', mimeType = Some mimeType', sizeBytes = Some size',
      state = Some ''ACTIVE'', createTime = Some createTime'\<rparr>"

section \<open>Lemmas on the helpers\<close>

lemmas mock_defs = mock_config_def mock_fs_def mock_remote_def mock_file_def outside_temp_config_def

lemmas path_defs = path_isAbsolute_def isWithinTempDir_def path_resolve_def
  resolved_segments_def normalize_segments_def normalize_step_def path_sep_def parent_directory_def

text \<open>
  No white-space character starts with the slash, so trimming leaves a string that starts
  with the slash non-empty. The empty string and the string of one U+00A0 are blank.
\<close>

lemma white_space_codes_heads:
  "w \<in> set white_space_codes \<Longrightarrow> w \<noteq> [] \<and> hd w \<noteq> CHR ''/''"
  by (auto simp: white_space_codes_def)

lemma trimStart_slash: "trimStart (CHR ''/'' # cs) = CHR ''/'' # cs"
proof -
  have "find (\<lambda>w. prefix w (CHR ''/'' # cs)) white_space_codes = None"
    by (simp add: white_space_codes_def)
  then show ?thesis by (simp add: trimStart.simps strip_white_start_def)
qed

lemma trimEnd_slash: "s \<noteq> [] \<Longrightarrow> hd s = CHR ''/'' \<Longrightarrow> trimEnd s \<noteq> []"
proof (induction s rule: trimEnd.induct)
  case (1 s)
  show ?case
  proof (cases "strip_white_end s")
    case None
    with "1.prems" show ?thesis by (simp add: trimEnd.simps)
  next
    case (Some rest)
    then obtain w where f: "find (\<lambda>w. suffix w s) white_space_codes = Some w"
      and r: "rest = take (length s - length w) s"
      by (auto simp: strip_white_end_def split: option.splits)
    from f have m: "w \<in> set white_space_codes" and p: "suffix w s"
      by (auto simp: find_Some_iff)
    from p obtain pre where s: "s = pre @ w" by (auto simp: suffix_def)
    have pre: "pre \<noteq> []"
    proof
      assume "pre = []"
      with s "1.prems" white_space_codes_heads [OF m] show False by simp
    qed
    have "rest = pre" using r s by simp
    with pre s "1.prems" have "rest \<noteq> []" "hd rest = CHR ''/''" by simp_all
    with "1.IH" [OF Some] Some show ?thesis by (simp add: trimEnd.simps)
  qed
qed

lemma trim_slash: "trim (CHR ''/'' # cs) \<noteq> []"
  by (simp add: trim_def trimStart_slash trimEnd_slash)

lemma trim_nil: "trim [] = []"
  by (simp add: trim_def trimStart.simps trimEnd.simps strip_white_start_def strip_white_end_def
      white_space_codes_def)

lemma trim_nbsp: "trim [CHR 0xC2, CHR 0xA0] = []"
  by (simp add: trim_def trimStart.simps trimEnd.simps strip_white_start_def strip_white_end_def
      white_space_codes_def)

text \<open>An absolute path is never blank: its first character is the slash.\<close>

lemma absolute_not_blank: "path_isAbsolute p \<Longrightarrow> trim p \<noteq> []"
  by (cases p) (auto simp: path_isAbsolute_def trim_slash)

lemma logged_simps [simp]: "fst (logged qs r) = qs @ fst r" "snd (logged qs r) = snd r"
  by (simp_all add: logged_def)

lemma logged_pair [simp]: "logged qs (a, b) = (qs @ a, b)"
  by (simp add: logged_def)

lemma str_includes_prefix: "prefix needle s \<Longrightarrow> str_includes s needle"
  by (cases s) auto

lemma str_includes_append_right: "str_includes ys needle \<Longrightarrow> str_includes (xs @ ys) needle"
  by (induction xs) (auto)

lemma str_includes_suffix: "str_includes (xs @ ys) ys"
  by (rule str_includes_append_right) (simp add: str_includes_prefix)

lemma show_small:
  "show_nat (Suc 0) = ''1''" "show_nat (Suc (Suc 0)) = ''2''" "show_int 100 = ''100''"
  by (simp_all add: show_nat.simps show_int_def digit_char_def)



lemma size_text_cases:
  "size_text None = ''unknown''"
  "n \<noteq> 0 \<Longrightarrow> size_text (Some (JSNumber n)) = show_int n @ '' bytes''"
  "size_text (Some (JSNumber 0)) = ''unknown''"
  "s \<noteq> [] \<Longrightarrow> size_text (Some (JSString s)) = s @ '' bytes''"
  "size_text (Some (JSString [])) = ''unknown''"
  by (simp_all add: size_text_def)

text \<open>The loop collects the whole sequence in its order, or fails with what the sequence threw.\<close>

lemma for_await_push_eq:
  "for_await_push yielded fin files = (case fin of None \<Rightarrow> Inr (files @ yielded) | Some err \<Rightarrow> Inl err)"
  by (induction yielded fin files rule: for_await_push.induct) (auto split: option.splits)

(* C1 amended *)

lemma map_enumerate_nth:
  "map f (enumerate 0 xs) = map (\<lambda>i. f (i, xs ! i)) [0..<length xs]"
  by (rule nth_equalityI) (simp_all add: nth_enumerate_eq)

text \<open>The verdict of a rule table is the message of the first rule that rejects; the
  questions asked are those of the rules up to it.\<close>

lemma first_rejection_Some:
  "first_rejection rules = (qs, Some m) \<Longrightarrow>
   \<exists>i < length rules. fst (snd (rules ! i)) \<and> m = snd (snd (rules ! i))
      \<and> (\<forall>j < i. \<not> fst (snd (rules ! j)))
      \<and> qs = concat (map fst (take (Suc i) rules))"
proof (induction rules arbitrary: qs)
  case Nil
  then show ?case by simp
next
  case (Cons r rules)
  obtain asks rejects msg where r: "r = (asks, rejects, msg)" by (cases r) auto
  show ?case
  proof (cases rejects)
    case True
    with Cons.prems r show ?thesis by (intro exI [of _ 0]) auto
  next
    case False
    obtain qs' where rest: "first_rejection rules = (qs', Some m)" and qs: "qs = asks @ qs'"
      using Cons.prems r False by (cases "first_rejection rules") (auto simp: logged_def)
    from Cons.IH [OF rest] obtain i where i: "i < length rules" "fst (snd (rules ! i))"
      "m = snd (snd (rules ! i))" "\<forall>j < i. \<not> fst (snd (rules ! j))"
      "qs' = concat (map fst (take (Suc i) rules))" by blast
    show ?thesis
    proof (intro exI [of _ "Suc i"] conjI allI impI)
      fix j assume "j < Suc i"
      then show "\<not> fst (snd ((r # rules) ! j))"
        using i(4) r False by (cases j) auto
    qed (use i r qs in auto)
  qed
qed

section \<open>The temp-directory test, segment by segment\<close>

text \<open>
  The segments of a resolved path are not empty and hold no slash. So the test of
  upload-file.ts (the resolved path is the resolved temp directory, or starts with it and
  the separator) says that the segments of the temp directory are a prefix of those of
  the path; except for a temp directory that resolves to the root, where the test holds
  for the root alone.
\<close>

lemma split_sep_nonempty: "split_sep s \<noteq> []"
  by (induction s) (auto split: list.splits)

lemma split_sep_no_slash: "seg \<in> set (split_sep s) \<Longrightarrow> CHR ''/'' \<notin> set seg"
  by (induction s arbitrary: seg) (auto split: list.splits if_splits)

lemma normalize_step_clean:
  "list_all clean_segment acc \<Longrightarrow> CHR ''/'' \<notin> set seg \<Longrightarrow> list_all clean_segment (normalize_step acc seg)"
  by (auto simp: normalize_step_def clean_segment_def list_all_iff dest: in_set_butlastD)

lemma foldl_normalize_clean:
  "list_all clean_segment acc \<Longrightarrow> (\<And>seg. seg \<in> set segs \<Longrightarrow> CHR ''/'' \<notin> set seg)
     \<Longrightarrow> list_all clean_segment (foldl normalize_step acc segs)"
  by (induction segs arbitrary: acc) (simp_all add: normalize_step_clean)

lemma resolved_segments_clean: "list_all clean_segment (resolved_segments wd p)"
  unfolding resolved_segments_def normalize_segments_def Let_def
  by (rule foldl_normalize_clean) (auto dest: split_sep_no_slash)

lemma join_slashed: "CHR ''/'' # join ''/'' (seg # segs) = slashed (seg # segs)"
  by (induction segs arbitrary: seg) auto

lemma path_resolve_slashed:
  "path_resolve wd p = (if resolved_segments wd p = [] then ''/'' else slashed (resolved_segments wd p))"
proof (cases "resolved_segments wd p")
  case Nil
  then show ?thesis by (simp add: path_resolve_def)
next
  case (Cons seg segs)
  then show ?thesis
    using join_slashed [of seg segs] by (simp add: path_resolve_def del: slashed.simps join.simps)
qed

lemma slashed_head: "slashed segs = [] \<or> hd (slashed segs) = CHR ''/''"
  by (cases segs) auto

lemma prefix_clean_append:
  assumes "CHR ''/'' \<notin> set a" "CHR ''/'' \<notin> set b"
    and "x \<noteq> []" "hd x = CHR ''/''" "y = [] \<or> hd y = CHR ''/''"
    and "prefix (a @ x) (b @ y)"
  shows "a = b \<and> prefix x y"
  using assms(1,2,6)
proof (induction a arbitrary: b)
  case Nil
  obtain x' where x: "x = CHR ''/'' # x'" using assms(3,4) by (cases x) auto
  show ?case
  proof (cases b)
    case Nil
    with Nil.prems show ?thesis by simp
  next
    case (Cons d b')
    with Nil.prems x show ?thesis by auto
  qed
next
  case (Cons c a)
  show ?case
  proof (cases b)
    case Nil
    with Cons.prems assms(5) show ?thesis by (cases y) auto
  next
    case (Cons d b')
    with Cons.prems have "c = d" "prefix (a @ x) (b' @ y)"
      "CHR ''/'' \<notin> set a" "CHR ''/'' \<notin> set b'" by simp_all
    with Cons.IH [of b'] Cons show ?thesis by simp
  qed
qed

lemma eq_clean_append:
  assumes "CHR ''/'' \<notin> set a" "CHR ''/'' \<notin> set b"
    and "x = [] \<or> hd x = CHR ''/''" "y = [] \<or> hd y = CHR ''/''"
    and "a @ x = b @ y"
  shows "a = b \<and> x = y"
  using assms(1,2,5)
proof (induction a arbitrary: b)
  case Nil
  show ?case
  proof (cases b)
    case Nil
    with Nil.prems show ?thesis by simp
  next
    case (Cons d b')
    with Nil.prems assms(3) show ?thesis by (cases x) auto
  qed
next
  case (Cons c a)
  show ?case
  proof (cases b)
    case Nil
    with Cons.prems assms(4) show ?thesis by (cases y) auto
  next
    case (Cons d b')
    with Cons.prems have "c = d" "a @ x = b' @ y"
      "CHR ''/'' \<notin> set a" "CHR ''/'' \<notin> set b'" by simp_all
    with Cons.IH [of b'] Cons show ?thesis by simp
  qed
qed

lemma slashed_prefix_iff:
  assumes "list_all clean_segment A" "list_all clean_segment B"
  shows "(prefix (slashed A @ ''/'') (slashed B) \<or> slashed B = slashed A) \<longleftrightarrow> prefix A B"
  using assms
proof (induction A arbitrary: B)
  case Nil
  then show ?case by (cases B) auto
next
  case (Cons a A)
  show ?case
  proof (cases B)
    case Nil
    then show ?thesis by simp
  next
    case (Cons b B')
    have cA: "list_all clean_segment A" and cB: "list_all clean_segment B'"
      using Cons.prems Cons by simp_all
    have ca: "CHR ''/'' \<notin> set a" and cb: "CHR ''/'' \<notin> set b"
      using Cons.prems Cons by (simp_all add: clean_segment_def)
    note IH = Cons.IH [OF cA cB]
    have x: "slashed A @ ''/'' \<noteq> []" "hd (slashed A @ ''/'') = CHR ''/''"
      using slashed_head [of A] by (auto simp: hd_append)
    show ?thesis
    proof
      assume "prefix (slashed (a # A) @ ''/'') (slashed B) \<or> slashed B = slashed (a # A)"
      then show "prefix (a # A) B"
      proof
        assume "prefix (slashed (a # A) @ ''/'') (slashed B)"
        then have "prefix (a @ (slashed A @ ''/'')) (b @ slashed B')"
          using Cons by simp
        from prefix_clean_append [OF ca cb x slashed_head this] IH
        show ?thesis using Cons by simp
      next
        assume "slashed B = slashed (a # A)"
        then have "a @ slashed A = b @ slashed B'"
          using Cons by simp
        from eq_clean_append [OF ca cb slashed_head slashed_head this] IH
        show ?thesis using Cons by simp
      qed
    next
      assume "prefix (a # A) B"
      then have "a = b" "prefix A B'" using Cons by simp_all
      with IH show "prefix (slashed (a # A) @ ''/'') (slashed B) \<or> slashed B = slashed (a # A)"
        using Cons by auto
    qed
  qed
qed

lemma isWithinTempDir_segments:
  "isWithinTempDir wd tmp p \<longleftrightarrow>
     (if resolved_segments wd tmp = [] then resolved_segments wd p = []
      else prefix (resolved_segments wd tmp) (resolved_segments wd p))"
proof -
  let ?T = "resolved_segments wd tmp" and ?P = "resolved_segments wd p"
  have cT: "list_all clean_segment ?T" and cP: "list_all clean_segment ?P"
    by (rule resolved_segments_clean)+
  show ?thesis
  proof (cases ?T)
    case Nil
    show ?thesis
    proof (cases ?P)
      case Nil
      with \<open>?T = []\<close> show ?thesis
        by (simp add: isWithinTempDir_def path_resolve_slashed path_sep_def)
    next
      case (Cons q Q)
      then have "q \<noteq> []" "CHR ''/'' \<notin> set q" using cP by (simp_all add: clean_segment_def)
      then have "hd q \<noteq> CHR ''/''" by (cases q) auto
      with \<open>q \<noteq> []\<close> \<open>?T = []\<close> Cons show ?thesis
        by (cases q) (simp_all add: isWithinTempDir_def path_resolve_slashed path_sep_def)
    qed
  next
    case (Cons t T')
    then have t: "t \<noteq> []" using cT by (simp add: clean_segment_def)
    show ?thesis
    proof (cases ?P)
      case Nil
      with Cons t show ?thesis
        by (cases t) (simp_all add: isWithinTempDir_def path_resolve_slashed path_sep_def)
    next
      case (Cons q Q)
      have "?T \<noteq> []" "?P \<noteq> []" using \<open>?T = t # T'\<close> Cons by simp_all
      then show ?thesis
        using slashed_prefix_iff [OF cT cP]
        by (simp add: isWithinTempDir_def path_resolve_slashed path_sep_def Let_def)
    qed
  qed
qed

section \<open>Lemmas on validation and execute\<close>

lemma upload_validate_admitted:
  "upload_path_admitted config fs (absolute_path params) \<Longrightarrow>
   UploadFileTool_validateToolParamValues config fs params =
     logged [AskWorkspace (absolute_path params), AskIgnore (absolute_path params),
             AskExists (absolute_path params), AskLstat (absolute_path params), AskAuth]
       (upload_auth_check config)"
  by (auto simp: upload_path_admitted_def UploadFileTool_validateToolParamValues_def Let_def logged_def split: option.splits)

lemma upload_validate_not_admitted:
  "\<not> upload_path_admitted config fs (absolute_path params) \<Longrightarrow>
   AskAuth \<notin> set (fst (UploadFileTool_validateToolParamValues config fs params))
   \<and> snd (UploadFileTool_validateToolParamValues config fs params) \<noteq> None
   \<and> snd (UploadFileTool_validateToolParamValues config fs params) \<noteq>
       Some ''File upload is not supported when using Vertex AI. Please use Gemini API (GEMINI_API_KEY) or OAuth authentication.''"
  by (auto simp: upload_path_admitted_def UploadFileTool_validateToolParamValues_def Let_def split: option.splits)

lemma upload_build_snd:
  "snd (UploadFileTool_build config fs params) =
     (case snd (UploadFileTool_validateToolParamValues config fs params) of
        Some msg \<Rightarrow> Inl msg
      | None \<Rightarrow> Inr \<lparr>upload_config = config, upload_params = params\<rparr>)"
  and upload_build_fst:
  "fst (UploadFileTool_build config fs params) =
     fst (UploadFileTool_validateToolParamValues config fs params)"
  by (simp_all add: UploadFileTool_build_def split: prod.splits option.splits)

lemma try_catch_returns:
  "(\<And>err. \<exists>r. handler err = Inr r) \<Longrightarrow> \<exists>r. snd (try_catch body handler) = Inr r"
  by (cases "snd body") (auto simp: try_catch_def)

text \<open>The try blocks throw exactly when the remote side fails.\<close>

lemma upload_try_raises:
  "snd (UploadFileToolInvocation_try cgc remote params signal) = Inl err
     \<longleftrightarrow> upload_remote_fails remote cgc params signal err"
  by (simp add: UploadFileToolInvocation_try_def upload_remote_fails_def Let_def
      split: option.splits sum.splits)

lemma list_try_raises:
  "snd (ListFilesToolInvocation_try cgc remote params signal) = Inl err
     \<longleftrightarrow> list_remote_fails remote cgc params signal err"
  by (simp add: ListFilesToolInvocation_try_def list_remote_fails_def Let_def for_await_push_eq
      split: option.splits sum.splits prod.splits)

lemma download_try_raises:
  "snd (DownloadFileToolInvocation_try cgc remote params signal) = Inl err
     \<longleftrightarrow> download_remote_fails remote cgc params signal err"
  by (simp add: DownloadFileToolInvocation_try_def download_remote_fails_def Let_def
      split: option.splits sum.splits)

lemma upload_try_success:
  "snd (UploadFileToolInvocation_try cgc remote params signal) = Inr r \<Longrightarrow> error r = None"
  by (cases "newGoogleGenAI remote (client_options cgc)";
      cases "files_upload remote (absolute_path params) (display_name params) signal")
     (auto simp: UploadFileToolInvocation_try_def Let_def)

lemma list_try_success:
  "snd (ListFilesToolInvocation_try cgc remote params signal) = Inr r \<Longrightarrow> error r = None"
proof (cases "newGoogleGenAI remote (client_options cgc)")
  case None
  assume r: "snd (ListFilesToolInvocation_try cgc remote params signal) = Inr r"
  show ?thesis
  proof (cases "files_list remote (page_size params) signal")
    case (Inl err)
    with None r show ?thesis by (simp add: ListFilesToolInvocation_try_def)
  next
    case (Inr listing)
    obtain yielded fin where l: "listing = (yielded, fin)" by (cases listing) auto
    show ?thesis
      using None Inr l r
      by (cases fin; cases yielded)
         (auto simp: ListFilesToolInvocation_try_def Let_def for_await_push_eq)
  qed
next
  case (Some err)
  assume "snd (ListFilesToolInvocation_try cgc remote params signal) = Inr r"
  with Some show ?thesis by (simp add: ListFilesToolInvocation_try_def)
qed

lemma upload_execute_returns: "\<exists>r. snd (UploadFileToolInvocation_execute u remote signal) = Inr r"
  unfolding UploadFileToolInvocation_execute_def Let_def
  by (simp add: try_catch_returns)

lemma list_execute_returns: "\<exists>r. snd (ListFilesToolInvocation_execute l remote signal) = Inr r"
  unfolding ListFilesToolInvocation_execute_def Let_def
  by (simp add: try_catch_returns)

lemma download_execute_returns:
  "\<exists>r. snd (DownloadFileToolInvocation_execute config params remote signal) = Inr r"
  unfolding DownloadFileToolInvocation_execute_def Let_def
  by (simp add: try_catch_returns)

lemma upload_execute_failure:
  assumes "\<not> vertexai (getContentGeneratorConfig (upload_config u))"
    and "upload_remote_fails remote (getContentGeneratorConfig (upload_config u)) (upload_params u) signal err"
  shows "snd (UploadFileToolInvocation_execute u remote signal) =
     Inr \<lparr>llmContent = ''Error uploading file '' @ [CHR 0x27] @ absolute_path (upload_params u)
                          @ [CHR 0x27] @ '': '' @ getErrorMessage err,
          returnDisplay = ''Error uploading file '' @ [CHR 0x27] @ absolute_path (upload_params u)
                          @ [CHR 0x27] @ '': '' @ getErrorMessage err,
          error = Some \<lparr>message = ''Error uploading file '' @ [CHR 0x27] @ absolute_path (upload_params u)
                          @ [CHR 0x27] @ '': '' @ getErrorMessage err,
                        errorType = FILE_UPLOAD_FAILURE\<rparr>\<rparr>"
  using assms upload_try_raises [of "getContentGeneratorConfig (upload_config u)" remote "upload_params u" signal err]
  by (simp add: UploadFileToolInvocation_execute_def Let_def try_catch_def)

lemma list_execute_failure:
  assumes "\<not> vertexai (getContentGeneratorConfig (list_config l))"
    and "list_remote_fails remote (getContentGeneratorConfig (list_config l)) (list_params l) signal err"
  shows "snd (ListFilesToolInvocation_execute l remote signal) =
     Inr \<lparr>llmContent = ''Error listing files from Gemini API: '' @ getErrorMessage err,
          returnDisplay = ''Error listing files from Gemini API: '' @ getErrorMessage err,
          error = Some \<lparr>message = ''Error listing files from Gemini API: '' @ getErrorMessage err,
                        errorType = FILE_LIST_FAILURE\<rparr>\<rparr>"
  using assms list_try_raises [of "getContentGeneratorConfig (list_config l)" remote "list_params l" signal err]
  by (simp add: ListFilesToolInvocation_execute_def Let_def try_catch_def)

lemma download_execute_failure:
  assumes "download_remote_fails remote (getContentGeneratorConfig config) params signal err"
  shows "snd (DownloadFileToolInvocation_execute config params remote signal) =
     Inr \<lparr>llmContent = ''Error downloading file '' @ file_uri params @ '': '' @ getErrorMessage err,
          returnDisplay = ''Error downloading file '' @ file_uri params @ '': '' @ getErrorMessage err,
          error = Some \<lparr>message = ''Error downloading file '' @ file_uri params @ '': '' @ getErrorMessage err,
                        errorType = FILE_DOWNLOAD_FAILURE\<rparr>\<rparr>"
  using assms download_try_raises [of "getContentGeneratorConfig config" remote params signal err]
  by (simp add: DownloadFileToolInvocation_execute_def Let_def try_catch_def)

text \<open>Where the authentication check stands in the validation of the upload tool.\<close>

lemma upload_auth_check_position:
  "(vertexai (getContentGeneratorConfig config) \<longrightarrow>
      (snd (UploadFileTool_build config fs params) =
         Inl ''File upload is not supported when using Vertex AI. Please use Gemini API (GEMINI_API_KEY) or OAuth authentication.''
       \<longleftrightarrow> upload_path_admitted config fs (absolute_path params)))
   \<and> (AskAuth \<in> set (fst (UploadFileTool_build config fs params))
       \<longleftrightarrow> upload_path_admitted config fs (absolute_path params))
   \<and> (\<not> upload_path_admitted config fs (absolute_path params) \<longrightarrow>
        UploadFileTool_build config fs params =
          UploadFileTool_build (config\<lparr>getContentGeneratorConfig := other\<rparr>) fs params)"
proof (cases "upload_path_admitted config fs (absolute_path params)")
  case True
  then show ?thesis
    by (simp add: upload_build_snd upload_build_fst upload_validate_admitted upload_auth_check_def)
next
  case False
  let ?v = "UploadFileTool_validateToolParamValues config fs params"
  let ?v' = "UploadFileTool_validateToolParamValues (config\<lparr>getContentGeneratorConfig := other\<rparr>) fs params"
  have same: "?v' = ?v"
    using False
    by (auto simp: upload_path_admitted_def UploadFileTool_validateToolParamValues_def Let_def
        split: option.splits)
  from upload_validate_not_admitted [OF False]
  obtain qs m where v: "?v = (qs, Some m)" and no_auth: "AskAuth \<notin> set qs"
    and m: "m \<noteq> ''File upload is not supported when using Vertex AI. Please use Gemini API (GEMINI_API_KEY) or OAuth authentication.''"
    by (cases ?v) auto
  have b: "UploadFileTool_build config fs params = (qs, Inl m)"
    by (simp add: UploadFileTool_build_def v)
  have b': "UploadFileTool_build (config\<lparr>getContentGeneratorConfig := other\<rparr>) fs params = (qs, Inl m)"
    using v same by (simp add: UploadFileTool_build_def)
  show ?thesis
    using False no_auth m by (simp add: b b')
qed

text \<open>The fault build raises for a path that fails a path check, check by check.\<close>

lemma upload_build_path_faults:
  "(trim (absolute_path params) = [] \<longrightarrow>
      UploadFileTool_build config fs params =
        ([], Inl ''The 'absolute_path' parameter must be non-empty.''))
   \<and> (trim (absolute_path params) \<noteq> [] \<and> \<not> path_isAbsolute (absolute_path params) \<longrightarrow>
      UploadFileTool_build config fs params =
        ([], Inl (''File path must be absolute, but was relative: '' @ absolute_path params
                  @ ''. You must provide an absolute path.'')))
   \<and> (path_isAbsolute (absolute_path params)
        \<and> \<not> isPathWithinWorkspace config (absolute_path params)
        \<and> \<not> isWithinTempDir (cwd fs) (getProjectTempDir config) (absolute_path params) \<longrightarrow>
      UploadFileTool_build config fs params =
        ([AskWorkspace (absolute_path params)],
         Inl (''File path must be within one of the workspace directories: ''
              @ join '', '' (getDirectories config)
              @ '' or within the project temp directory: '' @ getProjectTempDir config)))
   \<and> (path_isAbsolute (absolute_path params)
        \<and> (isPathWithinWorkspace config (absolute_path params)
             \<or> isWithinTempDir (cwd fs) (getProjectTempDir config) (absolute_path params))
        \<and> shouldGeminiIgnoreFile config (absolute_path params) \<longrightarrow>
      UploadFileTool_build config fs params =
        ([AskWorkspace (absolute_path params), AskIgnore (absolute_path params)],
         Inl (''File path '' @ [CHR 0x27] @ absolute_path params @ [CHR 0x27]
              @ '' is ignored by .geminiignore pattern(s).'')))
   \<and> (path_isAbsolute (absolute_path params)
        \<and> (isPathWithinWorkspace config (absolute_path params)
             \<or> isWithinTempDir (cwd fs) (getProjectTempDir config) (absolute_path params))
        \<and> \<not> shouldGeminiIgnoreFile config (absolute_path params)
        \<and> \<not> existsSync fs (absolute_path params) \<longrightarrow>
      UploadFileTool_build config fs params =
        ([AskWorkspace (absolute_path params), AskIgnore (absolute_path params),
          AskExists (absolute_path params)],
         Inl (''File does not exist: '' @ absolute_path params)))
   \<and> (path_isAbsolute (absolute_path params)
        \<and> (isPathWithinWorkspace config (absolute_path params)
             \<or> isWithinTempDir (cwd fs) (getProjectTempDir config) (absolute_path params))
        \<and> \<not> shouldGeminiIgnoreFile config (absolute_path params)
        \<and> existsSync fs (absolute_path params)
        \<and> lstatSync fs (absolute_path params) = None \<longrightarrow>
      UploadFileTool_build config fs params =
        ([AskWorkspace (absolute_path params), AskIgnore (absolute_path params),
          AskExists (absolute_path params), AskLstat (absolute_path params)],
         Inl (''File does not exist or cannot be accessed: '' @ absolute_path params)))
   \<and> (path_isAbsolute (absolute_path params)
        \<and> (isPathWithinWorkspace config (absolute_path params)
             \<or> isWithinTempDir (cwd fs) (getProjectTempDir config) (absolute_path params))
        \<and> \<not> shouldGeminiIgnoreFile config (absolute_path params)
        \<and> existsSync fs (absolute_path params)
        \<and> lstatSync fs (absolute_path params) = Some \<lparr>isFile = False\<rparr> \<longrightarrow>
      UploadFileTool_build config fs params =
        ([AskWorkspace (absolute_path params), AskIgnore (absolute_path params),
          AskExists (absolute_path params), AskLstat (absolute_path params)],
         Inl (''Path is not a file: '' @ absolute_path params)))"
  using absolute_not_blank [of "absolute_path params"]
  by (auto simp: UploadFileTool_build_def UploadFileTool_validateToolParamValues_def Let_def)


section \<open>The claims\<close>

subsection \<open>C1: where the authorization-mode check stands in the upload tool's validation\<close>

text \<open>
  Claim C1, as amended. The claim has the authorization-mode check of the upload tool
  run, and fail under the Vertex AI mode, before any path or existence check. In
  upload-file.ts it is the last check. What holds: under the Vertex AI mode, build
  raises the capability-unavailable fault exactly when the path passes every path
  check (not blank, absolute, inside a workspace root or the temp directory, not
  ignored, existing, a regular file); the authentication configuration is asked
  exactly when the path passes them; and for a path that fails one of them, build
  gives the same outcome under every authentication configuration, namely the fault of
  the first check the path fails: the non-empty message for a blank path, the
  must-be-absolute message for a relative one, then the containment message, the
  ignored message, the does-not-exist message, the cannot-be-accessed message (where
  \<open>lstatSync\<close> throws) and the not-a-file message, each after the questions of the
  checks up to it and none of a later one.
\<close>

theorem upload_auth_check_after_path_checks:
  "(vertexai (getContentGeneratorConfig config) \<longrightarrow>
      (snd (UploadFileTool_build config fs params) =
         Inl ''File upload is not supported when using Vertex AI. Please use Gemini API (GEMINI_API_KEY) or OAuth authentication.''
       \<longleftrightarrow> upload_path_admitted config fs (absolute_path params)))
   \<and> (AskAuth \<in> set (fst (UploadFileTool_build config fs params))
       \<longleftrightarrow> upload_path_admitted config fs (absolute_path params))
   \<and> (\<not> upload_path_admitted config fs (absolute_path params) \<longrightarrow>
        UploadFileTool_build config fs params =
          UploadFileTool_build (config\<lparr>getContentGeneratorConfig := other\<rparr>) fs params)
   \<and> (trim (absolute_path params) = [] \<longrightarrow>
      UploadFileTool_build config fs params =
        ([], Inl ''The 'absolute_path' parameter must be non-empty.''))
   \<and> (trim (absolute_path params) \<noteq> [] \<and> \<not> path_isAbsolute (absolute_path params) \<longrightarrow>
      UploadFileTool_build config fs params =
        ([], Inl (''File path must be absolute, but was relative: '' @ absolute_path params
                  @ ''. You must provide an absolute path.'')))
   \<and> (path_isAbsolute (absolute_path params)
        \<and> \<not> isPathWithinWorkspace config (absolute_path params)
        \<and> \<not> isWithinTempDir (cwd fs) (getProjectTempDir config) (absolute_path params) \<longrightarrow>
      UploadFileTool_build config fs params =
        ([AskWorkspace (absolute_path params)],
         Inl (''File path must be within one of the workspace directories: ''
              @ join '', '' (getDirectories config)
              @ '' or within the project temp directory: '' @ getProjectTempDir config)))
   \<and> (path_isAbsolute (absolute_path params)
        \<and> (isPathWithinWorkspace config (absolute_path params)
             \<or> isWithinTempDir (cwd fs) (getProjectTempDir config) (absolute_path params))
        \<and> shouldGeminiIgnoreFile config (absolute_path params) \<longrightarrow>
      UploadFileTool_build config fs params =
        ([AskWorkspace (absolute_path params), AskIgnore (absolute_path params)],
         Inl (''File path '' @ [CHR 0x27] @ absolute_path params @ [CHR 0x27]
              @ '' is ignored by .geminiignore pattern(s).'')))
   \<and> (path_isAbsolute (absolute_path params)
        \<and> (isPathWithinWorkspace config (absolute_path params)
             \<or> isWithinTempDir (cwd fs) (getProjectTempDir config) (absolute_path params))
        \<and> \<not> shouldGeminiIgnoreFile config (absolute_path params)
        \<and> \<not> existsSync fs (absolute_path params) \<longrightarrow>
      UploadFileTool_build config fs params =
        ([AskWorkspace (absolute_path params), AskIgnore (absolute_path params),
          AskExists (absolute_path params)],
         Inl (''File does not exist: '' @ absolute_path params)))
   \<and> (path_isAbsolute (absolute_path params)
        \<and> (isPathWithinWorkspace config (absolute_path params)
             \<or> isWithinTempDir (cwd fs) (getProjectTempDir config) (absolute_path params))
        \<and> \<not> shouldGeminiIgnoreFile config (absolute_path params)
        \<and> existsSync fs (absolute_path params)
        \<and> lstatSync fs (absolute_path params) = None \<longrightarrow>
      UploadFileTool_build config fs params =
        ([AskWorkspace (absolute_path params), AskIgnore (absolute_path params),
          AskExists (absolute_path params), AskLstat (absolute_path params)],
         Inl (''File does not exist or cannot be accessed: '' @ absolute_path params)))
   \<and> (path_isAbsolute (absolute_path params)
        \<and> (isPathWithinWorkspace config (absolute_path params)
             \<or> isWithinTempDir (cwd fs) (getProjectTempDir config) (absolute_path params))
        \<and> \<not> shouldGeminiIgnoreFile config (absolute_path params)
        \<and> existsSync fs (absolute_path params)
        \<and> lstatSync fs (absolute_path params) = Some \<lparr>isFile = False\<rparr> \<longrightarrow>
      UploadFileTool_build config fs params =
        ([AskWorkspace (absolute_path params), AskIgnore (absolute_path params),
          AskExists (absolute_path params), AskLstat (absolute_path params)],
         Inl (''Path is not a file: '' @ absolute_path params)))"
  using upload_auth_check_position [of config fs params other]
    upload_build_path_faults [of params config fs]
  by blast

text \<open>
  The theorem at the mock configuration in the Vertex AI mode: the existing file is
  refused for the mode; for the directory the authentication is not asked and the fault
  is that of the regular-file check.
\<close>

theorem upload_auth_check_after_path_checks_witness:
  "vertexai (getContentGeneratorConfig (mock_config True USE_VERTEX_AI))
   \<and> upload_path_admitted (mock_config True USE_VERTEX_AI) mock_fs ''/tmp/root/test.txt''
   \<and> snd (UploadFileTool_build (mock_config True USE_VERTEX_AI) mock_fs
         \<lparr>absolute_path = ''/tmp/root/test.txt'', display_name = None\<rparr>)
       = Inl ''File upload is not supported when using Vertex AI. Please use Gemini API (GEMINI_API_KEY) or OAuth authentication.''
   \<and> \<not> upload_path_admitted (mock_config True USE_VERTEX_AI) mock_fs ''/tmp/root/testdir''
   \<and> AskAuth \<notin> set (fst (UploadFileTool_build (mock_config True USE_VERTEX_AI) mock_fs
         \<lparr>absolute_path = ''/tmp/root/testdir'', display_name = None\<rparr>))
   \<and> snd (UploadFileTool_build (mock_config True USE_VERTEX_AI) mock_fs
         \<lparr>absolute_path = ''/tmp/root/testdir'', display_name = None\<rparr>)
       = Inl ''Path is not a file: /tmp/root/testdir''"
proof -
  have c: "snd (UploadFileTool_build (mock_config True USE_VERTEX_AI) mock_fs
         \<lparr>absolute_path = ''/tmp/root/testdir'', display_name = None\<rparr>)
       = Inl ''Path is not a file: /tmp/root/testdir''"
    by (simp add: UploadFileTool_build_def UploadFileTool_validateToolParamValues_def mock_config_def
        mock_fs_def trim_slash path_isAbsolute_def Let_def)
  have a: "upload_path_admitted (mock_config True USE_VERTEX_AI) mock_fs ''/tmp/root/test.txt''"
    by (simp add: upload_path_admitted_def mock_config_def mock_fs_def trim_slash
        path_isAbsolute_def)
  have b: "\<not> upload_path_admitted (mock_config True USE_VERTEX_AI) mock_fs ''/tmp/root/testdir''"
    by (simp add: upload_path_admitted_def mock_config_def mock_fs_def trim_slash
        path_isAbsolute_def)
  have v: "vertexai (getContentGeneratorConfig (mock_config True USE_VERTEX_AI))"
    by (simp add: mock_config_def)
  show ?thesis
    using a b c v
      upload_auth_check_after_path_checks [of "mock_config True USE_VERTEX_AI" mock_fs
        "\<lparr>absolute_path = ''/tmp/root/test.txt'', display_name = None\<rparr>"]
      upload_auth_check_after_path_checks [of "mock_config True USE_VERTEX_AI" mock_fs
        "\<lparr>absolute_path = ''/tmp/root/testdir'', display_name = None\<rparr>"]
    by simp
qed

text \<open>
  Against C1 as stated: in the Vertex AI mode, for a path inside the workspace that
  does not exist, build raises the does-not-exist fault, after asking the workspace,
  the ignore service and the file system, and never the authentication configuration.
\<close>

theorem upload_auth_check_first_counterexample:
  "UploadFileTool_build (mock_config True USE_VERTEX_AI) mock_fs
     \<lparr>absolute_path = ''/tmp/root/nonexistent.txt'', display_name = None\<rparr>
   = ([AskWorkspace ''/tmp/root/nonexistent.txt'', AskIgnore ''/tmp/root/nonexistent.txt'',
       AskExists ''/tmp/root/nonexistent.txt''],
      Inl ''File does not exist: /tmp/root/nonexistent.txt'')
   \<and> vertexai (getContentGeneratorConfig (mock_config True USE_VERTEX_AI))"
  by (simp add: UploadFileTool_build_def UploadFileTool_validateToolParamValues_def mock_config_def
      mock_fs_def trim_slash path_isAbsolute_def Let_def)

subsection \<open>C2: the order of the path rules of the upload tool\<close>

text \<open>
  Claim C2. The upload tool's validation applies the path rules in the order
  blank path, not absolute (the message holds the path given), not contained (the
  message lists the workspace roots and the temp directory), ignored, does not exist,
  not a regular file: whenever one of the six rules rejects, validation gives the
  message of the first rule that rejects, and has asked the questions of the rules up to
  that one and no later one. (The blank-path rule is that of the code: the path is empty
  once \<^verbatim>\<open>trim\<close> has taken its white space off. Where \<open>lstatSync\<close> throws, none of
  the six rules rejects and the code gives a seventh message.)
\<close>

theorem upload_path_rule_order:
  assumes "snd (first_rejection (upload_path_rules config fs (absolute_path params))) \<noteq> None"
  shows "UploadFileTool_validateToolParamValues config fs params =
           first_rejection (upload_path_rules config fs (absolute_path params))"
  using assms
  by (auto simp: UploadFileTool_validateToolParamValues_def upload_path_rules_def Let_def
      split: option.splits if_splits)

text \<open>
  The theorem at the path of the tests that lies outside the workspace, and at the path
  of one U+00A0, which is blank.
\<close>

theorem upload_path_rule_order_witness:
  "snd (first_rejection (upload_path_rules (mock_config False USE_GEMINI) mock_fs ''/outside/root.txt'')) \<noteq> None
   \<and> UploadFileTool_validateToolParamValues (mock_config False USE_GEMINI) mock_fs
        \<lparr>absolute_path = ''/outside/root.txt'', display_name = None\<rparr>
      = ([AskWorkspace ''/outside/root.txt''],
         Some ''File path must be within one of the workspace directories: /tmp/root or within the project temp directory: /tmp/root/.temp'')
   \<and> snd (first_rejection (upload_path_rules (mock_config False USE_GEMINI) mock_fs [CHR 0xC2, CHR 0xA0])) \<noteq> None
   \<and> UploadFileTool_validateToolParamValues (mock_config False USE_GEMINI) mock_fs
        \<lparr>absolute_path = [CHR 0xC2, CHR 0xA0], display_name = None\<rparr>
      = ([], Some ''The 'absolute_path' parameter must be non-empty.'')"
proof -
  have r2: "first_rejection (upload_path_rules (mock_config False USE_GEMINI) mock_fs [CHR 0xC2, CHR 0xA0])
     = ([], Some ''The 'absolute_path' parameter must be non-empty.'')"
    by (simp add: upload_path_rules_def trim_nbsp)
  then have h2: "snd (first_rejection (upload_path_rules (mock_config False USE_GEMINI) mock_fs
      (absolute_path \<lparr>absolute_path = [CHR 0xC2, CHR 0xA0], display_name = None\<rparr>))) \<noteq> None"
    by simp
  have r: "first_rejection (upload_path_rules (mock_config False USE_GEMINI) mock_fs ''/outside/root.txt'')
     = ([AskWorkspace ''/outside/root.txt''],
         Some ''File path must be within one of the workspace directories: /tmp/root or within the project temp directory: /tmp/root/.temp'')"
    by (simp add: upload_path_rules_def mock_config_def mock_fs_def trim_slash
        path_isAbsolute_def isWithinTempDir_def path_resolve_def resolved_segments_def
        normalize_segments_def normalize_step_def path_sep_def)
  then have h: "snd (first_rejection (upload_path_rules (mock_config False USE_GEMINI) mock_fs
      (absolute_path \<lparr>absolute_path = ''/outside/root.txt'', display_name = None\<rparr>))) \<noteq> None"
    by simp
  show ?thesis
    using upload_path_rule_order [OF h] upload_path_rule_order [OF h2] r r2 by simp
qed

subsection \<open>C3: the temp directory is admitted whatever the workspace\<close>

text \<open>
  Claim C3. For an absolute path that is the project temp directory or lies under it
  (resolved, it equals the resolved temp directory or starts with it and the
  separator), the containment check admits the path whatever the workspace roots are:
  the validation of the upload tool gives the same outcome for every answer of the
  workspace, never gives the containment message, and goes on to the ignore-pattern
  check; the validation of the download tool, modelled from the specification, gives
  the same outcome for every answer of the workspace and never the containment
  rejection.
\<close>

theorem temp_dir_carve_out:
  assumes "path_isAbsolute p" and "isWithinTempDir (cwd fs) (getProjectTempDir config) p"
  shows "UploadFileTool_validateToolParamValues (config\<lparr>isPathWithinWorkspace := w\<rparr>) fs
            \<lparr>absolute_path = p, display_name = d\<rparr>
         = UploadFileTool_validateToolParamValues config fs \<lparr>absolute_path = p, display_name = d\<rparr>
     \<and> snd (UploadFileTool_validateToolParamValues config fs \<lparr>absolute_path = p, display_name = d\<rparr>)
         \<noteq> Some (''File path must be within one of the workspace directories: ''
                   @ join '', '' (getDirectories config)
                   @ '' or within the project temp directory: '' @ getProjectTempDir config)
     \<and> AskIgnore p \<in> set (fst (UploadFileTool_validateToolParamValues config fs
                                  \<lparr>absolute_path = p, display_name = d\<rparr>))
     \<and> DownloadFileTool_validateToolParamValues (config\<lparr>isPathWithinWorkspace := w\<rparr>) fs
            \<lparr>file_uri = u, download_path = p\<rparr>
         = DownloadFileTool_validateToolParamValues config fs \<lparr>file_uri = u, download_path = p\<rparr>
     \<and> DownloadFileTool_validateToolParamValues config fs \<lparr>file_uri = u, download_path = p\<rparr>
         \<noteq> Some (OutsideRoots dirs tmp)"
proof -
  have nb: "trim p \<noteq> []" using assms(1) by (rule absolute_not_blank)
  show ?thesis
    using assms nb
    by (simp add: UploadFileTool_validateToolParamValues_def DownloadFileTool_validateToolParamValues_def
        Let_def upload_auth_check_def split: option.splits)
qed

text \<open>
  The theorem at a temp directory outside the workspace root: the file under it is
  outside the workspace, and both validations admit it.
\<close>

theorem temp_dir_carve_out_witness:
  "path_isAbsolute ''/var/gemini/tmp/temp-file.txt''
   \<and> isWithinTempDir (cwd mock_fs) (getProjectTempDir outside_temp_config) ''/var/gemini/tmp/temp-file.txt''
   \<and> \<not> isPathWithinWorkspace outside_temp_config ''/var/gemini/tmp/temp-file.txt''
   \<and> UploadFileTool_validateToolParamValues outside_temp_config mock_fs
         \<lparr>absolute_path = ''/var/gemini/tmp/temp-file.txt'', display_name = None\<rparr>
       = ([AskWorkspace ''/var/gemini/tmp/temp-file.txt'', AskIgnore ''/var/gemini/tmp/temp-file.txt'',
           AskExists ''/var/gemini/tmp/temp-file.txt'', AskLstat ''/var/gemini/tmp/temp-file.txt'',
           AskAuth], None)
   \<and> UploadFileTool_validateToolParamValues (outside_temp_config\<lparr>isPathWithinWorkspace := \<lambda>p. False\<rparr>) mock_fs
         \<lparr>absolute_path = ''/var/gemini/tmp/temp-file.txt'', display_name = None\<rparr>
       = ([AskWorkspace ''/var/gemini/tmp/temp-file.txt'', AskIgnore ''/var/gemini/tmp/temp-file.txt'',
           AskExists ''/var/gemini/tmp/temp-file.txt'', AskLstat ''/var/gemini/tmp/temp-file.txt'',
           AskAuth], None)
   \<and> DownloadFileTool_validateToolParamValues outside_temp_config mock_fs
         \<lparr>file_uri = ''files/test123'', download_path = ''/var/gemini/tmp/temp-file.txt''\<rparr>
       = None"
proof -
  have a: "path_isAbsolute ''/var/gemini/tmp/temp-file.txt''"
    by (simp add: path_isAbsolute_def)
  have t: "isWithinTempDir (cwd mock_fs) (getProjectTempDir outside_temp_config) ''/var/gemini/tmp/temp-file.txt''"
    by (simp add: mock_defs path_defs)
  have w: "\<not> isPathWithinWorkspace outside_temp_config ''/var/gemini/tmp/temp-file.txt''"
    by (simp add: mock_defs)
  have u: "UploadFileTool_validateToolParamValues outside_temp_config mock_fs
         \<lparr>absolute_path = ''/var/gemini/tmp/temp-file.txt'', display_name = None\<rparr>
       = ([AskWorkspace ''/var/gemini/tmp/temp-file.txt'', AskIgnore ''/var/gemini/tmp/temp-file.txt'',
           AskExists ''/var/gemini/tmp/temp-file.txt'', AskLstat ''/var/gemini/tmp/temp-file.txt'',
           AskAuth], None)"
    using t
    by (simp add: UploadFileTool_validateToolParamValues_def upload_auth_check_def Let_def
        mock_defs trim_slash path_isAbsolute_def)
  have d: "DownloadFileTool_validateToolParamValues outside_temp_config mock_fs
         \<lparr>file_uri = ''files/test123'', download_path = ''/var/gemini/tmp/temp-file.txt''\<rparr> = None"
    using t
    by (simp add: DownloadFileTool_validateToolParamValues_def mock_defs path_isAbsolute_def
        parent_directory_def resolved_segments_def normalize_segments_def normalize_step_def)
  show ?thesis
    using a t w u d
      temp_dir_carve_out [OF a t, of "\<lambda>p. False" None "''files/test123''" "[]" "[]"]
    by simp
qed

subsection \<open>C4: execute never raises\<close>

text \<open>
  Claim C4. Execute of the upload, the list and the download invocation (the last
  modelled from the specification) always returns a result and never throws, whatever
  the remote side does. When the remote side fails (the constructor or the call
  throws, or a listing throws midway), the result holds an error of the kind
  \<open>FILE_UPLOAD_FAILURE\<close>, \<open>FILE_LIST_FAILURE\<close> or \<open>FILE_DOWNLOAD_FAILURE\<close>.
\<close>

theorem execute_never_raises:
  "(\<exists>r. snd (UploadFileToolInvocation_execute u remote signal) = Inr r)
   \<and> (\<exists>r. snd (ListFilesToolInvocation_execute l remote signal) = Inr r)
   \<and> (\<exists>r. snd (DownloadFileToolInvocation_execute config d remote signal) = Inr r)
   \<and> (\<not> vertexai (getContentGeneratorConfig (upload_config u))
        \<and> upload_remote_fails remote (getContentGeneratorConfig (upload_config u)) (upload_params u) signal err
       \<longrightarrow> (\<exists>r m. snd (UploadFileToolInvocation_execute u remote signal) = Inr r
                  \<and> error r = Some \<lparr>message = m, errorType = FILE_UPLOAD_FAILURE\<rparr>))
   \<and> (\<not> vertexai (getContentGeneratorConfig (list_config l))
        \<and> list_remote_fails remote (getContentGeneratorConfig (list_config l)) (list_params l) signal err
       \<longrightarrow> (\<exists>r m. snd (ListFilesToolInvocation_execute l remote signal) = Inr r
                  \<and> error r = Some \<lparr>message = m, errorType = FILE_LIST_FAILURE\<rparr>))
   \<and> (download_remote_fails remote (getContentGeneratorConfig config) d signal err
       \<longrightarrow> (\<exists>r m. snd (DownloadFileToolInvocation_execute config d remote signal) = Inr r
                  \<and> error r = Some \<lparr>message = m, errorType = FILE_DOWNLOAD_FAILURE\<rparr>))"
  using upload_execute_returns [of u remote signal] list_execute_returns [of l remote signal]
    download_execute_returns [of config d remote signal]
    upload_execute_failure [of u remote signal err] list_execute_failure [of l remote signal err]
    download_execute_failure [of remote config d signal err]
  by simp

text \<open>
  The theorem at a remote side whose upload fails and whose listing throws after its
  first descriptor.
\<close>

theorem execute_never_raises_witness:
  "\<not> vertexai (getContentGeneratorConfig (mock_config False USE_GEMINI))
   \<and> upload_remote_fails
        (mock_remote (Inl (ErrorObject ''Upload failed''))
           (Inr ([mock_file ''test123'' ''test1.txt'' ''text/plain'' (JSNumber 100) ''2024-01-01T00:00:00Z''],
                 Some (ErrorObject ''List failed'')))
           (Some (ErrorObject ''Download failed'')))
        (getContentGeneratorConfig (mock_config False USE_GEMINI))
        \<lparr>absolute_path = ''/tmp/root/test.txt'', display_name = None\<rparr> (AbortSignal False)
        (ErrorObject ''Upload failed'')
   \<and> list_remote_fails
        (mock_remote (Inl (ErrorObject ''Upload failed''))
           (Inr ([mock_file ''test123'' ''test1.txt'' ''text/plain'' (JSNumber 100) ''2024-01-01T00:00:00Z''],
                 Some (ErrorObject ''List failed'')))
           (Some (ErrorObject ''Download failed'')))
        (getContentGeneratorConfig (mock_config False USE_GEMINI))
        \<lparr>page_size = None\<rparr> (AbortSignal False) (ErrorObject ''List failed'')
   \<and> snd (ListFilesToolInvocation_execute
          \<lparr>list_config = mock_config False USE_GEMINI, list_params = \<lparr>page_size = None\<rparr>\<rparr>
          (mock_remote (Inl (ErrorObject ''Upload failed''))
             (Inr ([mock_file ''test123'' ''test1.txt'' ''text/plain'' (JSNumber 100) ''2024-01-01T00:00:00Z''],
                   Some (ErrorObject ''List failed'')))
             (Some (ErrorObject ''Download failed'')))
          (AbortSignal False))
       = Inr \<lparr>llmContent = ''Error listing files from Gemini API: List failed'',
              returnDisplay = ''Error listing files from Gemini API: List failed'',
              error = Some \<lparr>message = ''Error listing files from Gemini API: List failed'',
                            errorType = FILE_LIST_FAILURE\<rparr>\<rparr>
   \<and> (\<exists>r m. snd (UploadFileToolInvocation_execute
          \<lparr>upload_config = mock_config False USE_GEMINI,
           upload_params = \<lparr>absolute_path = ''/tmp/root/test.txt'', display_name = None\<rparr>\<rparr>
          (mock_remote (Inl (ErrorObject ''Upload failed''))
             (Inr ([mock_file ''test123'' ''test1.txt'' ''text/plain'' (JSNumber 100) ''2024-01-01T00:00:00Z''],
                   Some (ErrorObject ''List failed'')))
             (Some (ErrorObject ''Download failed'')))
          (AbortSignal False)) = Inr r
        \<and> error r = Some \<lparr>message = m, errorType = FILE_UPLOAD_FAILURE\<rparr>)"
proof -
  let ?remote = "mock_remote (Inl (ErrorObject ''Upload failed''))
           (Inr ([mock_file ''test123'' ''test1.txt'' ''text/plain'' (JSNumber 100) ''2024-01-01T00:00:00Z''],
                 Some (ErrorObject ''List failed'')))
           (Some (ErrorObject ''Download failed''))"
  let ?u = "\<lparr>upload_config = mock_config False USE_GEMINI,
           upload_params = \<lparr>absolute_path = ''/tmp/root/test.txt'', display_name = None\<rparr>\<rparr>"
  let ?l = "\<lparr>list_config = mock_config False USE_GEMINI, list_params = \<lparr>page_size = None\<rparr>\<rparr>"
  have v: "\<not> vertexai (getContentGeneratorConfig (mock_config False USE_GEMINI))"
    by (simp add: mock_defs)
  have uf: "upload_remote_fails ?remote (getContentGeneratorConfig (mock_config False USE_GEMINI))
        \<lparr>absolute_path = ''/tmp/root/test.txt'', display_name = None\<rparr> (AbortSignal False)
        (ErrorObject ''Upload failed'')"
    by (simp add: upload_remote_fails_def mock_defs)
  have lf: "list_remote_fails ?remote (getContentGeneratorConfig (mock_config False USE_GEMINI))
        \<lparr>page_size = None\<rparr> (AbortSignal False) (ErrorObject ''List failed'')"
    by (simp add: list_remote_fails_def mock_defs)
  have le: "snd (ListFilesToolInvocation_execute ?l ?remote (AbortSignal False))
       = Inr \<lparr>llmContent = ''Error listing files from Gemini API: List failed'',
              returnDisplay = ''Error listing files from Gemini API: List failed'',
              error = Some \<lparr>message = ''Error listing files from Gemini API: List failed'',
                            errorType = FILE_LIST_FAILURE\<rparr>\<rparr>"
    by (simp add: ListFilesToolInvocation_execute_def ListFilesToolInvocation_try_def Let_def
        try_catch_def mock_defs client_options_def)
  show ?thesis
    using v uf lf le
      execute_never_raises [of ?u ?remote "AbortSignal False" ?l "mock_config False USE_GEMINI"
        "\<lparr>file_uri = ''files/test123'', download_path = ''/tmp/root/downloaded.txt''\<rparr>"
        "ErrorObject ''Upload failed''"]
    by simp
qed

subsection \<open>C5: what the two strings of an error result hold\<close>

text \<open>
  Claim C5, as amended. The claim has both strings of every error result hold the word
  Error and the underlying message. The results of the Vertex AI branch hold the
  not-supported sentence, which has no such word. What holds, for the upload and the
  list invocation outside the Vertex AI mode: a result with an error comes from a
  failure of the remote side, its two strings are equal, start with \<^verbatim>\<open>Error uploading file\<close>
  or \<^verbatim>\<open>Error listing files\<close>, and end with the message of the value thrown.
\<close>

theorem remote_failure_results_carry_message:
  "(\<not> vertexai (getContentGeneratorConfig (upload_config u))
      \<and> snd (UploadFileToolInvocation_execute u remote signal) = Inr r \<and> error r \<noteq> None
     \<longrightarrow> (\<exists>err. upload_remote_fails remote (getContentGeneratorConfig (upload_config u))
                    (upload_params u) signal err
            \<and> llmContent r = ''Error uploading file '' @ [CHR 0x27] @ absolute_path (upload_params u)
                              @ [CHR 0x27] @ '': '' @ getErrorMessage err
            \<and> returnDisplay r = llmContent r
            \<and> str_includes (llmContent r) ''Error''
            \<and> str_includes (llmContent r) (getErrorMessage err)))
   \<and> (\<not> vertexai (getContentGeneratorConfig (list_config l))
      \<and> snd (ListFilesToolInvocation_execute l remote signal) = Inr r' \<and> error r' \<noteq> None
     \<longrightarrow> (\<exists>err. list_remote_fails remote (getContentGeneratorConfig (list_config l))
                    (list_params l) signal err
            \<and> llmContent r' = ''Error listing files from Gemini API: '' @ getErrorMessage err
            \<and> returnDisplay r' = llmContent r'
            \<and> str_includes (llmContent r') ''Error''
            \<and> str_includes (llmContent r') (getErrorMessage err)))"
proof (intro conjI impI)
  assume a: "\<not> vertexai (getContentGeneratorConfig (upload_config u))
      \<and> snd (UploadFileToolInvocation_execute u remote signal) = Inr r \<and> error r \<noteq> None"
  let ?body = "UploadFileToolInvocation_try (getContentGeneratorConfig (upload_config u)) remote
                (upload_params u) signal"
  show "\<exists>err. upload_remote_fails remote (getContentGeneratorConfig (upload_config u))
                    (upload_params u) signal err
            \<and> llmContent r = ''Error uploading file '' @ [CHR 0x27] @ absolute_path (upload_params u)
                              @ [CHR 0x27] @ '': '' @ getErrorMessage err
            \<and> returnDisplay r = llmContent r
            \<and> str_includes (llmContent r) ''Error''
            \<and> str_includes (llmContent r) (getErrorMessage err)"
  proof (cases "snd ?body")
    case (Inl err)
    then have f: "upload_remote_fails remote (getContentGeneratorConfig (upload_config u))
                    (upload_params u) signal err"
      by (simp add: upload_try_raises)
    from upload_execute_failure [OF _ f] a
    have r: "r = \<lparr>llmContent = ''Error uploading file '' @ [CHR 0x27] @ absolute_path (upload_params u)
                          @ [CHR 0x27] @ '': '' @ getErrorMessage err,
          returnDisplay = ''Error uploading file '' @ [CHR 0x27] @ absolute_path (upload_params u)
                          @ [CHR 0x27] @ '': '' @ getErrorMessage err,
          error = Some \<lparr>message = ''Error uploading file '' @ [CHR 0x27] @ absolute_path (upload_params u)
                          @ [CHR 0x27] @ '': '' @ getErrorMessage err,
                        errorType = FILE_UPLOAD_FAILURE\<rparr>\<rparr>"
      by simp
    have s: "str_includes (''Error uploading file '' @ [CHR 0x27] @ absolute_path (upload_params u)
                          @ [CHR 0x27] @ '': '' @ getErrorMessage err) (getErrorMessage err)"
      using str_includes_suffix [of "''Error uploading file '' @ [CHR 0x27] @ absolute_path (upload_params u)
                          @ [CHR 0x27] @ '': ''" "getErrorMessage err"]
      by simp
    show ?thesis
      using f s by (intro exI [of _ err]) (simp add: r)
  next
    case (Inr ok)
    then have "error ok = None" by (rule upload_try_success)
    moreover have "snd (UploadFileToolInvocation_execute u remote signal) = Inr ok"
      using a Inr by (simp add: UploadFileToolInvocation_execute_def Let_def try_catch_def)
    ultimately show ?thesis using a by simp
  qed
next
  assume a: "\<not> vertexai (getContentGeneratorConfig (list_config l))
      \<and> snd (ListFilesToolInvocation_execute l remote signal) = Inr r' \<and> error r' \<noteq> None"
  let ?body = "ListFilesToolInvocation_try (getContentGeneratorConfig (list_config l)) remote
                (list_params l) signal"
  show "\<exists>err. list_remote_fails remote (getContentGeneratorConfig (list_config l))
                    (list_params l) signal err
            \<and> llmContent r' = ''Error listing files from Gemini API: '' @ getErrorMessage err
            \<and> returnDisplay r' = llmContent r'
            \<and> str_includes (llmContent r') ''Error''
            \<and> str_includes (llmContent r') (getErrorMessage err)"
  proof (cases "snd ?body")
    case (Inl err)
    then have f: "list_remote_fails remote (getContentGeneratorConfig (list_config l))
                    (list_params l) signal err"
      by (simp add: list_try_raises)
    from list_execute_failure [OF _ f] a
    have r: "r' = \<lparr>llmContent = ''Error listing files from Gemini API: '' @ getErrorMessage err,
          returnDisplay = ''Error listing files from Gemini API: '' @ getErrorMessage err,
          error = Some \<lparr>message = ''Error listing files from Gemini API: '' @ getErrorMessage err,
                        errorType = FILE_LIST_FAILURE\<rparr>\<rparr>"
      by simp
    have s: "str_includes (''Error listing files from Gemini API: '' @ getErrorMessage err)
               (getErrorMessage err)"
      by (rule str_includes_suffix)
    show ?thesis
      using f s by (intro exI [of _ err]) (simp add: r)
  next
    case (Inr ok)
    then have "error ok = None" by (rule list_try_success)
    moreover have "snd (ListFilesToolInvocation_execute l remote signal) = Inr ok"
      using a Inr by (simp add: ListFilesToolInvocation_execute_def Let_def try_catch_def)
    ultimately show ?thesis using a by simp
  qed
qed

text \<open>The theorem at a remote side whose upload and whose listing fail.\<close>

theorem remote_failure_results_carry_message_witness:
  "\<not> vertexai (getContentGeneratorConfig (mock_config False USE_GEMINI))
   \<and> (\<exists>r. snd (UploadFileToolInvocation_execute
               \<lparr>upload_config = mock_config False USE_GEMINI,
                upload_params = \<lparr>absolute_path = ''/tmp/root/test.txt'', display_name = None\<rparr>\<rparr>
               (mock_remote (Inl (ErrorObject ''Upload failed'')) (Inl (ErrorObject ''List failed'')) None)
               (AbortSignal False)) = Inr r
          \<and> error r \<noteq> None
          \<and> llmContent r = ''Error uploading file '/tmp/root/test.txt': Upload failed''
          \<and> returnDisplay r = llmContent r
          \<and> str_includes (llmContent r) ''Error'')
   \<and> (\<exists>r. snd (ListFilesToolInvocation_execute
               \<lparr>list_config = mock_config False USE_GEMINI, list_params = \<lparr>page_size = None\<rparr>\<rparr>
               (mock_remote (Inl (ErrorObject ''Upload failed'')) (Inl (ErrorObject ''List failed'')) None)
               (AbortSignal False)) = Inr r
          \<and> error r \<noteq> None
          \<and> llmContent r = ''Error listing files from Gemini API: List failed''
          \<and> returnDisplay r = llmContent r
          \<and> str_includes (llmContent r) ''Error'')"
proof -
  let ?remote = "mock_remote (Inl (ErrorObject ''Upload failed'')) (Inl (ErrorObject ''List failed'')) None"
  let ?u = "\<lparr>upload_config = mock_config False USE_GEMINI,
           upload_params = \<lparr>absolute_path = ''/tmp/root/test.txt'', display_name = None\<rparr>\<rparr>"
  let ?l = "\<lparr>list_config = mock_config False USE_GEMINI, list_params = \<lparr>page_size = None\<rparr>\<rparr>"
  let ?ru = "\<lparr>llmContent = ''Error uploading file '/tmp/root/test.txt': Upload failed'',
              returnDisplay = ''Error uploading file '/tmp/root/test.txt': Upload failed'',
              error = Some \<lparr>message = ''Error uploading file '/tmp/root/test.txt': Upload failed'',
                            errorType = FILE_UPLOAD_FAILURE\<rparr>\<rparr>"
  let ?rl = "\<lparr>llmContent = ''Error listing files from Gemini API: List failed'',
              returnDisplay = ''Error listing files from Gemini API: List failed'',
              error = Some \<lparr>message = ''Error listing files from Gemini API: List failed'',
                            errorType = FILE_LIST_FAILURE\<rparr>\<rparr>"
  have v: "\<not> vertexai (getContentGeneratorConfig (mock_config False USE_GEMINI))"
    by (simp add: mock_defs)
  have vu: "\<not> vertexai (getContentGeneratorConfig (upload_config ?u))"
    and vl: "\<not> vertexai (getContentGeneratorConfig (list_config ?l))"
    by (simp_all add: mock_defs)
  have eu: "snd (UploadFileToolInvocation_execute ?u ?remote (AbortSignal False)) = Inr ?ru"
    by (simp add: UploadFileToolInvocation_execute_def UploadFileToolInvocation_try_def Let_def
        try_catch_def mock_defs client_options_def)
  have el: "snd (ListFilesToolInvocation_execute ?l ?remote (AbortSignal False)) = Inr ?rl"
    by (simp add: ListFilesToolInvocation_execute_def ListFilesToolInvocation_try_def Let_def
        try_catch_def mock_defs client_options_def)
  have nu: "error ?ru \<noteq> None" and nl: "error ?rl \<noteq> None"
    by simp_all
  note inst = remote_failure_results_carry_message [of ?u ?remote "AbortSignal False" ?ru ?l ?rl]
  from inst vu eu nu have iu: "str_includes (llmContent ?ru) ''Error''"
    by blast
  from inst vl el nl have il: "str_includes (llmContent ?rl) ''Error''"
    by blast
  have U: "\<exists>r. snd (UploadFileToolInvocation_execute ?u ?remote (AbortSignal False)) = Inr r
          \<and> error r \<noteq> None
          \<and> llmContent r = ''Error uploading file '/tmp/root/test.txt': Upload failed''
          \<and> returnDisplay r = llmContent r
          \<and> str_includes (llmContent r) ''Error''"
    using eu iu by (intro exI [of _ ?ru]) simp
  have L: "\<exists>r. snd (ListFilesToolInvocation_execute ?l ?remote (AbortSignal False)) = Inr r
          \<and> error r \<noteq> None
          \<and> llmContent r = ''Error listing files from Gemini API: List failed''
          \<and> returnDisplay r = llmContent r
          \<and> str_includes (llmContent r) ''Error''"
    using el il by (intro exI [of _ ?rl]) simp
  from v U L show ?thesis by (intro conjI)
qed

text \<open>
  Against C5 as stated: in the Vertex AI mode the upload invocation returns a result with
  an error whose strings do not hold the word Error.
\<close>

theorem error_result_without_Error_word_counterexample:
  "snd (UploadFileToolInvocation_execute
          \<lparr>upload_config = mock_config True USE_VERTEX_AI,
           upload_params = \<lparr>absolute_path = ''/tmp/root/test.txt'', display_name = None\<rparr>\<rparr>
          (mock_remote (Inl (ErrorObject ''Upload failed'')) (Inl (ErrorObject ''List failed'')) None)
          (AbortSignal False))
     = Inr \<lparr>llmContent = ''File upload is not supported when using Vertex AI. Please use Gemini API (GEMINI_API_KEY) or OAuth authentication.'',
            returnDisplay = ''File upload is not supported when using Vertex AI. Please use Gemini API (GEMINI_API_KEY) or OAuth authentication.'',
            error = Some \<lparr>message = ''File upload is not supported when using Vertex AI. Please use Gemini API (GEMINI_API_KEY) or OAuth authentication.'',
                          errorType = UPLOAD_NOT_SUPPORTED\<rparr>\<rparr>
   \<and> \<not> str_includes ''File upload is not supported when using Vertex AI. Please use Gemini API (GEMINI_API_KEY) or OAuth authentication.'' ''Error''"
  by (simp add: UploadFileToolInvocation_execute_def Let_def mock_defs)

subsection \<open>C6: the page size of the list tool\<close>

text \<open>
  Claim C6. Build of the list tool rejects every page size that is zero or negative with
  the one message \<^verbatim>\<open>page_size must be a positive number\<close>, before the authentication
  configuration is asked; a positive page size is validated as an absent one is; and
  under a supported authentication both are accepted.
\<close>

theorem list_page_size_boundary:
  "(n \<le> 0 \<longrightarrow>
      ListFilesTool_build config \<lparr>page_size = Some n\<rparr> = ([], Inl ''page_size must be a positive number''))
   \<and> (0 < n \<longrightarrow>
      ListFilesTool_validateToolParamValues config \<lparr>page_size = Some n\<rparr>
        = ListFilesTool_validateToolParamValues config \<lparr>page_size = None\<rparr>)
   \<and> (0 < n \<and> \<not> vertexai (getContentGeneratorConfig config)
        \<and> (authType (getContentGeneratorConfig config) = Some USE_GEMINI
             \<or> authType (getContentGeneratorConfig config) = Some LOGIN_WITH_GOOGLE) \<longrightarrow>
      snd (ListFilesTool_build config \<lparr>page_size = Some n\<rparr>)
        = Inr \<lparr>list_config = config, list_params = \<lparr>page_size = Some n\<rparr>\<rparr>
      \<and> snd (ListFilesTool_build config \<lparr>page_size = None\<rparr>)
        = Inr \<lparr>list_config = config, list_params = \<lparr>page_size = None\<rparr>\<rparr>)"
  by (auto simp: ListFilesTool_build_def ListFilesTool_validateToolParamValues_def list_auth_check_def Let_def)

text \<open>The theorem at the page sizes 0, -1, 1 and none, under the mock configuration.\<close>

theorem list_page_size_boundary_witness:
  "ListFilesTool_build (mock_config False USE_GEMINI) \<lparr>page_size = Some 0\<rparr>
     = ([], Inl ''page_size must be a positive number'')
   \<and> ListFilesTool_build (mock_config False USE_GEMINI) \<lparr>page_size = Some (- 1)\<rparr>
     = ([], Inl ''page_size must be a positive number'')
   \<and> snd (ListFilesTool_build (mock_config False USE_GEMINI) \<lparr>page_size = Some 1\<rparr>)
     = Inr \<lparr>list_config = mock_config False USE_GEMINI, list_params = \<lparr>page_size = Some 1\<rparr>\<rparr>
   \<and> snd (ListFilesTool_build (mock_config False USE_GEMINI) \<lparr>page_size = None\<rparr>)
     = Inr \<lparr>list_config = mock_config False USE_GEMINI, list_params = \<lparr>page_size = None\<rparr>\<rparr>"
proof -
  have a: "\<not> vertexai (getContentGeneratorConfig (mock_config False USE_GEMINI))"
    "authType (getContentGeneratorConfig (mock_config False USE_GEMINI)) = Some USE_GEMINI"
    by (simp_all add: mock_config_def)
  show ?thesis
    using a list_page_size_boundary [of 0 "mock_config False USE_GEMINI"]
      list_page_size_boundary [of "- 1" "mock_config False USE_GEMINI"]
      list_page_size_boundary [of 1 "mock_config False USE_GEMINI"]
    by simp
qed

subsection \<open>C7: the empty listing\<close>

text \<open>
  Claim C7, as amended. The claim has the content of the result for an empty listing be
  exactly the phrase \<^verbatim>\<open>No files found\<close>. What holds: when the listing yields no
  descriptor and does not fail, execute returns a result without an error whose two
  strings are exactly \<^verbatim>\<open>No files found in the Gemini API file manager.\<close>, a sentence
  that starts with that phrase, after constructing the client and calling the listing.
\<close>

theorem empty_listing_message:
  assumes "\<not> vertexai (getContentGeneratorConfig (list_config l))"
    and "newGoogleGenAI remote (client_options (getContentGeneratorConfig (list_config l))) = None"
    and "files_list remote (page_size (list_params l)) signal = Inr ([], None)"
  shows "ListFilesToolInvocation_execute l remote signal =
           ([NewGoogleGenAI (client_options (getContentGeneratorConfig (list_config l))),
             FilesList (page_size (list_params l)) signal],
            Inr \<lparr>llmContent = ''No files found in the Gemini API file manager.'',
                 returnDisplay = ''No files found in the Gemini API file manager.'',
                 error = None\<rparr>)
         \<and> prefix ''No files found'' ''No files found in the Gemini API file manager.''"
  using assms
  by (simp add: ListFilesToolInvocation_execute_def ListFilesToolInvocation_try_def Let_def try_catch_def)

text \<open>The theorem at the mock configuration and a remote side with no files.\<close>

theorem empty_listing_message_witness:
  "\<not> vertexai (getContentGeneratorConfig (mock_config False USE_GEMINI))
   \<and> newGoogleGenAI (mock_remote (Inl (ErrorObject ''Upload failed'')) (Inr ([], None)) None)
        (client_options (getContentGeneratorConfig (mock_config False USE_GEMINI))) = None
   \<and> files_list (mock_remote (Inl (ErrorObject ''Upload failed'')) (Inr ([], None)) None)
        None (AbortSignal False) = Inr ([], None)
   \<and> ListFilesToolInvocation_execute
          \<lparr>list_config = mock_config False USE_GEMINI, list_params = \<lparr>page_size = None\<rparr>\<rparr>
          (mock_remote (Inl (ErrorObject ''Upload failed'')) (Inr ([], None)) None)
          (AbortSignal False)
     = ([NewGoogleGenAI \<lparr>options_apiKey = Some ''test-api-key'', options_vertexai = False\<rparr>,
         FilesList None (AbortSignal False)],
        Inr \<lparr>llmContent = ''No files found in the Gemini API file manager.'',
             returnDisplay = ''No files found in the Gemini API file manager.'',
             error = None\<rparr>)"
proof -
  let ?remote = "mock_remote (Inl (ErrorObject ''Upload failed'')) (Inr ([], None)) None"
  let ?l = "\<lparr>list_config = mock_config False USE_GEMINI, list_params = \<lparr>page_size = None\<rparr>\<rparr>"
  have v: "\<not> vertexai (getContentGeneratorConfig (list_config ?l))"
    by (simp add: mock_defs)
  have c: "newGoogleGenAI ?remote (client_options (getContentGeneratorConfig (list_config ?l))) = None"
    by (simp add: mock_defs)
  have f: "files_list ?remote (page_size (list_params ?l)) (AbortSignal False) = Inr ([], None)"
    by (simp add: mock_defs)
  have o: "client_options (getContentGeneratorConfig (mock_config False USE_GEMINI))
     = \<lparr>options_apiKey = Some ''test-api-key'', options_vertexai = False\<rparr>"
    by (simp add: client_options_def mock_defs)
  show ?thesis
    using v c f o empty_listing_message [OF v c f]
    by simp
qed

text \<open>
  Against C7 as stated: the content for the empty listing is not the phrase
  \<^verbatim>\<open>No files found\<close> itself.
\<close>

theorem empty_listing_exact_phrase_counterexample:
  "snd (ListFilesToolInvocation_execute
          \<lparr>list_config = mock_config False USE_GEMINI, list_params = \<lparr>page_size = None\<rparr>\<rparr>
          (mock_remote (Inl (ErrorObject ''Upload failed'')) (Inr ([], None)) None)
          (AbortSignal False))
     = Inr \<lparr>llmContent = ''No files found in the Gemini API file manager.'',
            returnDisplay = ''No files found in the Gemini API file manager.'',
            error = None\<rparr>
   \<and> ''No files found in the Gemini API file manager.'' \<noteq> ''No files found''"
  by (simp add: ListFilesToolInvocation_execute_def ListFilesToolInvocation_try_def Let_def
      try_catch_def mock_defs client_options_def)

subsection \<open>C8: the listing of one or more files\<close>

text \<open>
  Claim C8. When the listing yields one or more descriptors and does not fail, execute
  returns a result without an error whose content is \<^verbatim>\<open>Found n file(s)\<close> and the
  rest of that line, then the entries of the descriptors in the order the sequence gave
  them, numbered from 1 and separated by an empty line, then the hint that names the
  download tool. An entry shows the display name, the URI (or else the name), the MIME
  type, the size, the state and the creation time; an absent field is shown as
  \<^verbatim>\<open>N/A\<close> (display name, URI) or \<^verbatim>\<open>unknown\<close> (the others).
\<close>

theorem list_enumeration:
  assumes "\<not> vertexai (getContentGeneratorConfig (list_config l))"
    and "newGoogleGenAI remote (client_options (getContentGeneratorConfig (list_config l))) = None"
    and "files_list remote (page_size (list_params l)) signal = Inr (files, None)"
    and "files \<noteq> []"
  shows "(\<exists>r. snd (ListFilesToolInvocation_execute l remote signal) = Inr r
            \<and> error r = None \<and> returnDisplay r = llmContent r
            \<and> llmContent r =
                ''Found '' @ show_nat (length files) @ '' file(s) in Gemini API file manager:''
                @ newline @ newline
                @ join (newline @ newline) (map (\<lambda>i. format_file (i, files ! i)) [0..<length files])
                @ newline @ newline
                @ ''You can reference these files in your prompts using their URI, or download them using the download_file tool.'')
     \<and> (\<forall>i f. format_file (i, f) =
            show_nat (i + 1) @ ''. '' @ or_else (displayName f) ''N/A'' @ newline
            @ ''   URI: '' @ or_else (js_or (uri f) (name f)) ''N/A'' @ newline
            @ ''   MIME Type: '' @ or_else (mimeType f) ''unknown'' @ newline
            @ ''   Size: '' @ size_text (sizeBytes f) @ newline
            @ ''   State: '' @ or_else (state f) ''unknown'' @ newline
            @ ''   Created: '' @ or_else (createTime f) ''unknown'')
     \<and> (\<forall>d. or_else None d = d) \<and> js_or None None = None \<and> size_text None = ''unknown''"
proof -
  have run: "for_await_push files None [] = Inr files"
    by (simp add: for_await_push_eq)
  have "snd (ListFilesToolInvocation_execute l remote signal) =
      Inr \<lparr>llmContent = ''Found '' @ show_nat (length files) @ '' file(s) in Gemini API file manager:''
                @ newline @ newline
                @ join (newline @ newline) (map (\<lambda>i. format_file (i, files ! i)) [0..<length files])
                @ newline @ newline
                @ ''You can reference these files in your prompts using their URI, or download them using the download_file tool.'',
           returnDisplay = ''Found '' @ show_nat (length files) @ '' file(s) in Gemini API file manager:''
                @ newline @ newline
                @ join (newline @ newline) (map (\<lambda>i. format_file (i, files ! i)) [0..<length files])
                @ newline @ newline
                @ ''You can reference these files in your prompts using their URI, or download them using the download_file tool.'',
           error = None\<rparr>"
    using assms run
    by (simp add: ListFilesToolInvocation_execute_def ListFilesToolInvocation_try_def Let_def
        try_catch_def map_enumerate_nth)
  moreover have "\<forall>i f. format_file (i, f) =
            show_nat (i + 1) @ ''. '' @ or_else (displayName f) ''N/A'' @ newline
            @ ''   URI: '' @ or_else (js_or (uri f) (name f)) ''N/A'' @ newline
            @ ''   MIME Type: '' @ or_else (mimeType f) ''unknown'' @ newline
            @ ''   Size: '' @ size_text (sizeBytes f) @ newline
            @ ''   State: '' @ or_else (state f) ''unknown'' @ newline
            @ ''   Created: '' @ or_else (createTime f) ''unknown''"
    by (simp add: format_file_def Let_def)
  moreover have "(\<forall>d. or_else None d = d) \<and> js_or None None = None \<and> size_text None = ''unknown''"
    by (simp add: or_else_def js_or_def truthy_def size_text_def)
  ultimately show ?thesis by simp
qed

text \<open>
  The theorem at two descriptors, the first as in the tests, the second with its name
  only.
\<close>

theorem list_enumeration_witness:
  "\<not> vertexai (getContentGeneratorConfig (mock_config False USE_GEMINI))
   \<and> files_list (mock_remote (Inl (ErrorObject ''Upload failed''))
        (Inr ([mock_file ''test123'' ''test1.txt'' ''text/plain'' (JSNumber 100) ''2024-01-01T00:00:00Z'',
               \<lparr>name = Some ''files/test456'', uri = None, displayName = None, mimeType = None,
                sizeBytes = None, state = None, createTime = None\<rparr>], None)) None)
        (Some 10) (AbortSignal False)
       = Inr ([mock_file ''test123'' ''test1.txt'' ''text/plain'' (JSNumber 100) ''2024-01-01T00:00:00Z'',
               \<lparr>name = Some ''files/test456'', uri = None, displayName = None, mimeType = None,
                sizeBytes = None, state = None, createTime = None\<rparr>], None)
   \<and> (\<exists>r. snd (ListFilesToolInvocation_execute
          \<lparr>list_config = mock_config False USE_GEMINI, list_params = \<lparr>page_size = Some 10\<rparr>\<rparr>
          (mock_remote (Inl (ErrorObject ''Upload failed''))
             (Inr ([mock_file ''test123'' ''test1.txt'' ''text/plain'' (JSNumber 100) ''2024-01-01T00:00:00Z'',
                    \<lparr>name = Some ''files/test456'', uri = None, displayName = None, mimeType = None,
                     sizeBytes = None, state = None, createTime = None\<rparr>], None)) None)
          (AbortSignal False)) = Inr r
      \<and> error r = None \<and> returnDisplay r = llmContent r
      \<and> llmContent r =
              ''Found 2 file(s) in Gemini API file manager:'' @ newline @ newline
              @ ''1. test1.txt'' @ newline
              @ ''   URI: https://generativelanguage.googleapis.com/v1beta/files/test123'' @ newline
              @ ''   MIME Type: text/plain'' @ newline
              @ ''   Size: 100 bytes'' @ newline
              @ ''   State: ACTIVE'' @ newline
              @ ''   Created: 2024-01-01T00:00:00Z'' @ newline @ newline
              @ ''2. N/A'' @ newline
              @ ''   URI: files/test456'' @ newline
              @ ''   MIME Type: unknown'' @ newline
              @ ''   Size: unknown'' @ newline
              @ ''   State: unknown'' @ newline
              @ ''   Created: unknown'' @ newline @ newline
              @ ''You can reference these files in your prompts using their URI, or download them using the download_file tool.'')"
proof -
  let ?files = "[mock_file ''test123'' ''test1.txt'' ''text/plain'' (JSNumber 100) ''2024-01-01T00:00:00Z'',
               \<lparr>name = Some ''files/test456'', uri = None, displayName = None, mimeType = None,
                sizeBytes = None, state = None, createTime = None\<rparr>]"
  let ?remote = "mock_remote (Inl (ErrorObject ''Upload failed'')) (Inr (?files, None)) None"
  let ?l = "\<lparr>list_config = mock_config False USE_GEMINI, list_params = \<lparr>page_size = Some 10\<rparr>\<rparr>"
  have v0: "\<not> vertexai (getContentGeneratorConfig (mock_config False USE_GEMINI))"
    by (simp add: mock_defs)
  have v: "\<not> vertexai (getContentGeneratorConfig (list_config ?l))"
    by (simp add: mock_defs)
  have c: "newGoogleGenAI ?remote (client_options (getContentGeneratorConfig (list_config ?l))) = None"
    by (simp add: mock_defs)
  have f: "files_list ?remote (page_size (list_params ?l)) (AbortSignal False) = Inr (?files, None)"
    by (simp add: mock_remote_def)
  have f0: "files_list ?remote (Some 10) (AbortSignal False) = Inr (?files, None)"
    by (simp add: mock_remote_def)
  have n: "?files \<noteq> []" by simp
  have upt: "[0..<length ?files] = [0, Suc 0]" by (simp add: upt_rec)
  have content:
    "''Found '' @ show_nat (length ?files) @ '' file(s) in Gemini API file manager:''
       @ newline @ newline
       @ join (newline @ newline) (map (\<lambda>i. format_file (i, ?files ! i)) [0..<length ?files])
       @ newline @ newline
       @ ''You can reference these files in your prompts using their URI, or download them using the download_file tool.''
     = ''Found 2 file(s) in Gemini API file manager:'' @ newline @ newline
              @ ''1. test1.txt'' @ newline
              @ ''   URI: https://generativelanguage.googleapis.com/v1beta/files/test123'' @ newline
              @ ''   MIME Type: text/plain'' @ newline
              @ ''   Size: 100 bytes'' @ newline
              @ ''   State: ACTIVE'' @ newline
              @ ''   Created: 2024-01-01T00:00:00Z'' @ newline @ newline
              @ ''2. N/A'' @ newline
              @ ''   URI: files/test456'' @ newline
              @ ''   MIME Type: unknown'' @ newline
              @ ''   Size: unknown'' @ newline
              @ ''   State: unknown'' @ newline
              @ ''   Created: unknown'' @ newline @ newline
              @ ''You can reference these files in your prompts using their URI, or download them using the download_file tool.''"
    unfolding upt
    by (simp add: format_file_def Let_def mock_file_def show_small or_else_def js_or_def truthy_def
        size_text_def)
  from list_enumeration [OF v c f n]
  have "\<exists>r. snd (ListFilesToolInvocation_execute ?l ?remote (AbortSignal False)) = Inr r
            \<and> error r = None \<and> returnDisplay r = llmContent r
            \<and> llmContent r =
                ''Found '' @ show_nat (length ?files) @ '' file(s) in Gemini API file manager:''
                @ newline @ newline
                @ join (newline @ newline) (map (\<lambda>i. format_file (i, ?files ! i)) [0..<length ?files])
                @ newline @ newline
                @ ''You can reference these files in your prompts using their URI, or download them using the download_file tool.''"
    by (rule conjunct1)
  then have E: "\<exists>r. snd (ListFilesToolInvocation_execute ?l ?remote (AbortSignal False)) = Inr r
            \<and> error r = None \<and> returnDisplay r = llmContent r
            \<and> llmContent r = ''Found 2 file(s) in Gemini API file manager:'' @ newline @ newline
              @ ''1. test1.txt'' @ newline
              @ ''   URI: https://generativelanguage.googleapis.com/v1beta/files/test123'' @ newline
              @ ''   MIME Type: text/plain'' @ newline
              @ ''   Size: 100 bytes'' @ newline
              @ ''   State: ACTIVE'' @ newline
              @ ''   Created: 2024-01-01T00:00:00Z'' @ newline @ newline
              @ ''2. N/A'' @ newline
              @ ''   URI: files/test456'' @ newline
              @ ''   MIME Type: unknown'' @ newline
              @ ''   Size: unknown'' @ newline
              @ ''   State: unknown'' @ newline
              @ ''   Created: unknown'' @ newline @ newline
              @ ''You can reference these files in your prompts using their URI, or download them using the download_file tool.''"
    unfolding content .
  from v0 f0 E show ?thesis by (intro conjI)
qed

subsection \<open>C9: the size in the summary of an upload\<close>



subsection \<open>C10: execute in the Vertex AI mode\<close>

text \<open>
  Claim C10. When the configuration is in the Vertex AI mode at the time of execute, the
  upload and the list invocation return an error result at once, with no remote call
  made and no client constructed; the error of the upload invocation has the kind
  \<open>UPLOAD_NOT_SUPPORTED\<close>, that of the list invocation the kind
  \<open>DOWNLOAD_NOT_SUPPORTED\<close>.
\<close>

theorem vertex_execute_short_circuit:
  "(vertexai (getContentGeneratorConfig (upload_config u)) \<longrightarrow>
      UploadFileToolInvocation_execute u remote signal =
        ([], Inr \<lparr>llmContent = ''File upload is not supported when using Vertex AI. Please use Gemini API (GEMINI_API_KEY) or OAuth authentication.'',
                   returnDisplay = ''File upload is not supported when using Vertex AI. Please use Gemini API (GEMINI_API_KEY) or OAuth authentication.'',
                   error = Some \<lparr>message = ''File upload is not supported when using Vertex AI. Please use Gemini API (GEMINI_API_KEY) or OAuth authentication.'',
                                 errorType = UPLOAD_NOT_SUPPORTED\<rparr>\<rparr>))
   \<and> (vertexai (getContentGeneratorConfig (list_config l)) \<longrightarrow>
      ListFilesToolInvocation_execute l remote signal =
        ([], Inr \<lparr>llmContent = ''File listing is not supported when using Vertex AI. Please use Gemini API (GEMINI_API_KEY) or OAuth authentication.'',
                   returnDisplay = ''File listing is not supported when using Vertex AI. Please use Gemini API (GEMINI_API_KEY) or OAuth authentication.'',
                   error = Some \<lparr>message = ''File listing is not supported when using Vertex AI. Please use Gemini API (GEMINI_API_KEY) or OAuth authentication.'',
                                 errorType = DOWNLOAD_NOT_SUPPORTED\<rparr>\<rparr>))"
  by (simp add: UploadFileToolInvocation_execute_def ListFilesToolInvocation_execute_def Let_def)

text \<open>The theorem at the mock configuration in the Vertex AI mode.\<close>

theorem vertex_execute_short_circuit_witness:
  "vertexai (getContentGeneratorConfig (mock_config True USE_VERTEX_AI))
   \<and> fst (UploadFileToolInvocation_execute
          \<lparr>upload_config = mock_config True USE_VERTEX_AI,
           upload_params = \<lparr>absolute_path = ''/tmp/root/test.txt'', display_name = None\<rparr>\<rparr>
          (mock_remote (Inl (ErrorObject ''Upload failed'')) (Inl (ErrorObject ''List failed'')) None)
          (AbortSignal False)) = []
   \<and> snd (ListFilesToolInvocation_execute
          \<lparr>list_config = mock_config True USE_VERTEX_AI, list_params = \<lparr>page_size = None\<rparr>\<rparr>
          (mock_remote (Inl (ErrorObject ''Upload failed'')) (Inl (ErrorObject ''List failed'')) None)
          (AbortSignal False))
       = Inr \<lparr>llmContent = ''File listing is not supported when using Vertex AI. Please use Gemini API (GEMINI_API_KEY) or OAuth authentication.'',
              returnDisplay = ''File listing is not supported when using Vertex AI. Please use Gemini API (GEMINI_API_KEY) or OAuth authentication.'',
              error = Some \<lparr>message = ''File listing is not supported when using Vertex AI. Please use Gemini API (GEMINI_API_KEY) or OAuth authentication.'',
                            errorType = DOWNLOAD_NOT_SUPPORTED\<rparr>\<rparr>"
proof -
  have v: "vertexai (getContentGeneratorConfig (mock_config True USE_VERTEX_AI))"
    by (simp add: mock_defs)
  show ?thesis
    using v
      vertex_execute_short_circuit [of
        "\<lparr>upload_config = mock_config True USE_VERTEX_AI,
          upload_params = \<lparr>absolute_path = ''/tmp/root/test.txt'', display_name = None\<rparr>\<rparr>"
        "mock_remote (Inl (ErrorObject ''Upload failed'')) (Inl (ErrorObject ''List failed'')) None"
        "AbortSignal False"
        "\<lparr>list_config = mock_config True USE_VERTEX_AI, list_params = \<lparr>page_size = None\<rparr>\<rparr>"]
    by simp
qed

end
